theory Spec2Isabelle
  imports Complex_Main "HOL-Library.Product_Lexorder"
begin

section \<open>Data model (models/Room.js, models/Booking.js, models/Guest.js)\<close>

text \<open>
  Instants (JavaScript \<open>Date\<close>) are integers: milliseconds since the epoch, which is what
  \<open>checkOut - checkIn\<close> and the comparisons of the source work on.  JavaScript numbers that
  carry money are exact rationals; the rounding of IEEE doubles is not modelled.
  Documents carry the fields the booking engine reads or writes; descriptive fields
  (names of rooms, amenities, images, special requests, add-ons, integration ids) are left
  out.  The \<open>_id\<close> of a document is a natural number.  A seasonal pricing entry has
  its two dates and its multiplier set, and a field of a document that is not set is its
  schema default.
\<close>

type_synonym date = int

datatype room_status = Available | Occupied | OutOfOrder | Maintenance

datatype cleaning_status = Clean | Dirty | InProgress | Inspected

datatype booking_status = Pending | Confirmed | CheckedIn | CheckedOut | Cancelled | NoShow

datatype payment_status = PaymentPending | Paid | PartiallyPaid | Refunded | Failed

datatype payment_method = CreditCard | DebitCard | BankTransfer | Cash | OnlinePayment

record SeasonalPricing =
  season :: string
  startDate :: date
  endDate :: date
  priceMultiplier :: rat

record Room =
  room_id :: nat
  maxOccupancy :: int
  basePrice :: rat
  seasonalPricing :: "SeasonalPricing list"
  roomStatus :: room_status
  isActive :: bool
  cleaningStatus :: cleaning_status
  lastCleaning :: "date option"

record Booking =
  booking_id :: nat
  bookingNumber :: string
  confirmationCode :: string
  guest :: nat
  room :: nat
  checkInDate :: date
  checkOutDate :: date
  adults :: int
  children :: int
  roomRate :: rat
  numberOfNights :: int
  subtotal :: rat
  taxes :: rat
  totalAmount :: rat
  paymentStatus :: payment_status
  paymentMethod :: payment_method
  stripePaymentIntentId :: "string option"
  status :: booking_status
  actualCheckInTime :: "date option"
  actualCheckOutTime :: "date option"
  cancellationReason :: "string option"
  cancellationDate :: "date option"
  cancellationFee :: rat
  refundAmount :: rat
  emailConfirmationSent :: bool

section \<open>Availability (models/Room.js)\<close>

text \<open>
  The filter document both availability queries send to the bookings collection:
  \<open>{ room: roomId, status: { $in: ['Confirmed', 'Checked In'] },
      $or: [ { checkInDate: { $lt: checkOut }, checkOutDate: { $gt: checkIn } } ] }\<close>.
\<close>

definition conflictFilter :: "nat \<Rightarrow> date \<Rightarrow> date \<Rightarrow> Booking \<Rightarrow> bool" where
  "conflictFilter roomId checkIn checkOut b \<longleftrightarrow>
     room b = roomId \<and> status b \<in> set [Confirmed, CheckedIn] \<and>
     (checkInDate b < checkOut \<and> checkOutDate b > checkIn)"

text \<open>\<open>roomSchema.methods.isAvailable\<close>: \<open>Booking.findOne\<close> is \<open>find\<close> on the collection.\<close>

definition isAvailable :: "Booking list \<Rightarrow> Room \<Rightarrow> date \<Rightarrow> date \<Rightarrow> bool" where
  "isAvailable bs this checkIn checkOut =
     (let conflictingBooking = find (conflictFilter (room_id this) checkIn checkOut) bs
      in conflictingBooking = None \<and> roomStatus this = Available \<and> isActive this)"

text \<open>
  \<open>roomSchema.statics.findAvailable\<close>: the four stages of the aggregation pipeline
  (\<open>$match\<close>, \<open>$lookup\<close> into \<open>conflictingBookings\<close>, \<open>$match\<close> on size 0, \<open>$project\<close>).
  A caller that leaves \<open>guests\<close> out passes 1.
\<close>

definition findAvailable :: "Room list \<Rightarrow> Booking list \<Rightarrow> date \<Rightarrow> date \<Rightarrow> int \<Rightarrow> Room list" where
  "findAvailable rs bs checkIn checkOut guests =
     (let matched = filter (\<lambda>r. roomStatus r = Available \<and> isActive r \<and> maxOccupancy r \<ge> guests) rs;
          looked = map (\<lambda>r. (r, filter (conflictFilter (room_id r) checkIn checkOut) bs)) matched;
          free = filter (\<lambda>(r, conflictingBookings). length conflictingBookings = 0) looked
      in map fst free)"

section \<open>Pricing (currentPrice virtual of models/Room.js, routes/bookings.js)\<close>

text \<open>
  \<open>currentPrice\<close> reads the clock (\<open>new Date()\<close>); the reading is the argument \<open>now\<close>.
  \<open>Array.prototype.find\<close> returns the first matching element.
\<close>

definition currentPrice :: "date \<Rightarrow> Room \<Rightarrow> rat" where
  "currentPrice now this =
     (let seasonalRate = find (\<lambda>pricing. startDate pricing \<le> now \<and> endDate pricing \<ge> now)
                              (seasonalPricing this)
      in case seasonalRate of
           Some p \<Rightarrow> basePrice this * priceMultiplier p
         | None \<Rightarrow> basePrice this)"

record Pricing =
  p_numberOfNights :: int
  p_roomRate :: rat
  p_subtotal :: rat
  p_taxes :: rat
  p_totalAmount :: rat

text \<open>The five pricing lines both creation routes share (bookings.js 82-86 and 214-218).\<close>

definition calculatePricing :: "date \<Rightarrow> Room \<Rightarrow> date \<Rightarrow> date \<Rightarrow> Pricing" where
  "calculatePricing now theRoom checkIn checkOut =
     (let numberOfNights = \<lceil>(of_int (checkOut - checkIn) :: rat) / (1000 * 60 * 60 * 24)\<rceil>;
          roomRate = currentPrice now theRoom;
          subtotal = roomRate * of_int numberOfNights;
          taxes = subtotal * (12 / 100);
          totalAmount = subtotal + taxes
      in \<lparr>p_numberOfNights = numberOfNights, p_roomRate = roomRate, p_subtotal = subtotal,
          p_taxes = taxes, p_totalAmount = totalAmount\<rparr>)"

section \<open>Booking number and confirmation code (pre-validate hook of models/Booking.js)\<close>

text \<open>\<open>String.prototype.charAt\<close>: the empty string outside the range.\<close>

definition charAt :: "string \<Rightarrow> int \<Rightarrow> string" where
  "charAt s i = (if 0 \<le> i \<and> nat i < length s then [s ! nat i] else [])"

text \<open>Decimal rendering of a number inside a template literal.\<close>

fun string_of_nat :: "nat \<Rightarrow> string" where
  "string_of_nat n =
     (if n < 10 then charAt ''0123456789'' (int n)
      else string_of_nat (n div 10) @ charAt ''0123456789'' (int (n mod 10)))"

declare string_of_nat.simps [simp del]

definition chars :: string where
  "chars = ''ABCDEFGHIJKLMNOPQRSTUVWXYZ0123456789''"

text \<open>
  The \<open>for\<close> loop of the hook: \<open>n\<close> iterations left, \<open>k\<close> the index of the next
  \<open>Math.random()\<close> value, \<open>code\<close> the accumulator.
\<close>

fun codeLoop :: "(nat \<Rightarrow> rat) \<Rightarrow> nat \<Rightarrow> nat \<Rightarrow> string \<Rightarrow> string" where
  "codeLoop rnd k 0 code = code"
| "codeLoop rnd k (Suc n) code =
     codeLoop rnd (Suc k) n (code @ charAt chars \<lfloor>rnd k * of_nat (length chars)\<rfloor>)"

text \<open>
  \<open>bookingSchema.pre('validate')\<close>.  A field that is not set is the empty string (falsy, as
  \<open>undefined\<close> is) or 0.  \<open>year\<close> is \<open>new Date().getFullYear()\<close>; \<open>rnd k\<close> is the value of the
  \<open>k\<close>-th call of \<open>Math.random()\<close>.
\<close>

definition preValidate :: "nat \<Rightarrow> (nat \<Rightarrow> rat) \<Rightarrow> Booking \<Rightarrow> Booking" where
  "preValidate year rnd this =
     (let (b1, k1) =
            (if bookingNumber this = [] then
               (let random = \<lfloor>100000 + rnd 0 * 900000\<rfloor>
                in (this\<lparr>bookingNumber := ''OVH'' @ string_of_nat year @ string_of_nat (nat random)\<rparr>,
                    Suc 0))
             else (this, 0));
          b2 = (if confirmationCode b1 = [] then b1\<lparr>confirmationCode := codeLoop rnd k1 8 []\<rparr>
                else b1);
          b3 = (if numberOfNights b2 = 0 then
                  b2\<lparr>numberOfNights :=
                        \<lceil>(of_int \<bar>checkOutDate b2 - checkInDate b2\<bar> :: rat) / (1000 * 60 * 60 * 24)\<rceil>\<rparr>
                else b2)
      in b3)"

section \<open>The store and the outside world\<close>

record GuestInfo =
  firstName :: string
  lastName :: string
  email :: string
  phone :: string

datatype loyalty_tier = Bronze | Silver | Gold | Platinum

record Guest =
  guest_id :: nat
  info :: GuestInfo
  isRegistered :: bool
  totalStays :: int
  totalSpent :: rat
  lastStayDate :: "date option"
  isVIP :: bool
  points :: int
  tier :: loyalty_tier

datatype stripe_request =
    PaymentIntentCreate int string
  | RefundCreate string int

text \<open>
  The collections, the next fresh \<open>_id\<close>, and the requests sent to the payment processor
  so far.
\<close>

record State =
  rooms :: "Room list"
  bookings :: "Booking list"
  guests :: "Guest list"
  nextId :: nat
  stripeRequests :: "stripe_request list"

text \<open>What the payment processor answers to \<open>paymentIntents.create\<close>: it throws, or returns an
  intent with an id and a status.\<close>

datatype intent_outcome = StripeError | PaymentIntent string string

text \<open>
  Everything a handler obtains from outside during one request: \<open>clock k\<close> is the \<open>k\<close>-th
  reading of \<open>new Date()\<close> in the handler, \<open>fullYear\<close> the year the hook reads,
  \<open>random k\<close> the \<open>k\<close>-th value of \<open>Math.random()\<close>, then the answers of the payment
  processor, of the mailer and of the \<open>adminAuth\<close> middleware.
\<close>

record Env =
  clock :: "nat \<Rightarrow> date"
  fullYear :: nat
  random :: "nat \<Rightarrow> rat"
  intentOutcome :: intent_outcome
  refundSucceeds :: bool
  emailSucceeds :: bool
  adminAuth :: bool

datatype error =
    ValidationErrors
  | CheckOutNotAfterCheckIn
  | CheckInInPast
  | RoomNotFound
  | OverCapacity
  | RoomNotAvailable
  | PaymentProcessingFailed
  | BookingNotFound
  | CannotBeCancelled
  | RefundProcessingFailed
  | MustBeConfirmed
  | MustBeCheckedIn
  | Unauthorized
  | DuplicateKey
  | ServerError

text \<open>\<open>Math.round\<close>: to the nearest integer, halves upwards.\<close>

definition Math_round :: "rat \<Rightarrow> int" where
  "Math_round x = \<lfloor>x + 1 / 2\<rfloor>"

text \<open>JavaScript truthiness of an optional string.\<close>

definition truthy :: "string option \<Rightarrow> bool" where
  "truthy v = (case v of None \<Rightarrow> False | Some s \<Rightarrow> s \<noteq> [])"

definition findRoomById :: "Room list \<Rightarrow> nat \<Rightarrow> Room option" where
  "findRoomById rs i = find (\<lambda>r. room_id r = i) rs"

definition findBookingById :: "Booking list \<Rightarrow> nat \<Rightarrow> Booking option" where
  "findBookingById bs i = find (\<lambda>b. booking_id b = i) bs"

text \<open>
  \<open>document.save()\<close> of a document already stored: the first document with its \<open>_id\<close> is
  replaced.
\<close>

definition indexOfId :: "('a \<Rightarrow> nat) \<Rightarrow> nat \<Rightarrow> 'a list \<Rightarrow> nat" where
  "indexOfId idf i xs = length (takeWhile (\<lambda>x. idf x \<noteq> i) xs)"

definition saveBooking :: "Booking \<Rightarrow> State \<Rightarrow> State" where
  "saveBooking b st =
     st\<lparr>bookings := (bookings st)[indexOfId booking_id (booking_id b) (bookings st) := b]\<rparr>"

definition saveRoom :: "Room \<Rightarrow> State \<Rightarrow> State" where
  "saveRoom r st = st\<lparr>rooms := (rooms st)[indexOfId room_id (room_id r) (rooms st) := r]\<rparr>"

definition saveGuest :: "Guest \<Rightarrow> State \<Rightarrow> State" where
  "saveGuest g st = st\<lparr>guests := (guests st)[indexOfId guest_id (guest_id g) (guests st) := g]\<rparr>"

text \<open>
  \<open>save()\<close> of a new booking: the pre-validate hook runs, then the insert, which the unique
  indexes on \<open>bookingNumber\<close> and \<open>confirmationCode\<close> reject with a duplicate-key error.
  Other storage faults are not modelled.
\<close>

definition insertBooking :: "Env \<Rightarrow> Booking \<Rightarrow> State \<Rightarrow> error + (Booking \<times> State)" where
  "insertBooking env b st =
     (let doc = (preValidate (fullYear env) (random env) b)\<lparr>booking_id := nextId st\<rparr>
      in if \<exists>x \<in> set (bookings st). bookingNumber x = bookingNumber doc
                                    \<or> confirmationCode x = confirmationCode doc
         then Inl DuplicateKey
         else Inr (doc, st\<lparr>bookings := bookings st @ [doc], nextId := Suc (nextId st)\<rparr>))"

section \<open>Guests (find-or-create of the routes, methods of models/Guest.js)\<close>

definition findOrCreateGuest :: "GuestInfo \<Rightarrow> State \<Rightarrow> Guest \<times> State" where
  "findOrCreateGuest gi st =
     (case find (\<lambda>g. email (info g) = email gi) (guests st) of
        None \<Rightarrow>
          (let g = \<lparr>guest_id = nextId st, info = gi, isRegistered = False, totalStays = 0,
                    totalSpent = 0, lastStayDate = None, isVIP = False, points = 0,
                    tier = Bronze\<rparr>
           in (g, st\<lparr>guests := guests st @ [g], nextId := Suc (nextId st)\<rparr>))
      | Some g \<Rightarrow> (let g' = g\<lparr>info := gi\<rparr> in (g', saveGuest g' st)))"

definition updateStayStats :: "date \<Rightarrow> rat \<Rightarrow> Guest \<Rightarrow> Guest" where
  "updateStayStats now stayAmount this =
     (let g = this\<lparr>totalStays := totalStays this + 1,
                    totalSpent := totalSpent this + stayAmount,
                    lastStayDate := Some now\<rparr>
      in if totalStays g \<ge> 10 \<and> totalSpent g \<ge> 5000 then g\<lparr>isVIP := True\<rparr> else g)"

definition addLoyaltyPoints :: "int \<Rightarrow> Guest \<Rightarrow> Guest" where
  "addLoyaltyPoints pts this =
     (let g = this\<lparr>points := points this + pts\<rparr>
      in if points g \<ge> 10000 then g\<lparr>tier := Platinum\<rparr>
         else if points g \<ge> 5000 then g\<lparr>tier := Gold\<rparr>
         else if points g \<ge> 1000 then g\<lparr>tier := Silver\<rparr>
         else g)"

section \<open>Creation routes (routes/bookings.js)\<close>

text \<open>
  The body of a creation request after the express-validator chain and \<open>new Date(...)\<close>:
  the dates are instants, the occupant counts integers (\<open>children\<close> is optional).
\<close>

record CreateRequest =
  q_guestInfo :: GuestInfo
  q_roomId :: nat
  q_checkInDate :: date
  q_checkOutDate :: date
  q_adults :: int
  q_children :: "int option"
  q_paymentMethodId :: string

text \<open>
  The express-validator chain of both creation routes, as far as it constrains the parsed
  request: the names and the phone number are not empty, there is at least one adult, and a
  number of children, when given, is not negative.  The syntactic checks of the e-mail
  address, the room id and the two dates are on the strings before parsing.
\<close>

definition requestValid :: "CreateRequest \<Rightarrow> bool" where
  "requestValid req \<longleftrightarrow>
     firstName (q_guestInfo req) \<noteq> [] \<and> lastName (q_guestInfo req) \<noteq> [] \<and>
     phone (q_guestInfo req) \<noteq> [] \<and> q_adults req \<ge> 1 \<and>
     (case q_children req of None \<Rightarrow> True | Some c \<Rightarrow> c \<ge> 0)"

text \<open>\<open>numberOfGuests.children || 0\<close>.\<close>

definition childrenOrZero :: "int option \<Rightarrow> int" where
  "childrenOrZero c = (case c of None \<Rightarrow> 0 | Some n \<Rightarrow> n)"

text \<open>\<open>new Booking({...})\<close> of the two routes: the fields the route gives, the schema
  defaults for the others.\<close>

definition newBooking ::
  "Guest \<Rightarrow> CreateRequest \<Rightarrow> Pricing \<Rightarrow> payment_status \<Rightarrow> payment_method \<Rightarrow> string option
     \<Rightarrow> booking_status \<Rightarrow> Booking" where
  "newBooking g req pr pstat pmeth intent stat =
     \<lparr>booking_id = 0, bookingNumber = [], confirmationCode = [],
      guest = guest_id g, room = q_roomId req,
      checkInDate = q_checkInDate req, checkOutDate = q_checkOutDate req,
      adults = q_adults req, children = childrenOrZero (q_children req),
      roomRate = p_roomRate pr, numberOfNights = p_numberOfNights pr,
      subtotal = p_subtotal pr, taxes = p_taxes pr, totalAmount = p_totalAmount pr,
      paymentStatus = pstat, paymentMethod = pmeth, stripePaymentIntentId = intent,
      status = stat, actualCheckInTime = None, actualCheckOutTime = None,
      cancellationReason = None, cancellationDate = None, cancellationFee = 0,
      refundAmount = 0, emailConfirmationSent = False\<rparr>"

text \<open>\<open>router.post('/request')\<close>: a booking request without online payment.\<close>

definition createBookingRequest :: "Env \<Rightarrow> CreateRequest \<Rightarrow> State \<Rightarrow> (error + Booking) \<times> State" where
  "createBookingRequest env req st =
     (let checkIn = q_checkInDate req; checkOut = q_checkOutDate req
      in if \<not> requestValid req then (Inl ValidationErrors, st)
         else if checkIn \<ge> checkOut then (Inl CheckOutNotAfterCheckIn, st)
         else if checkIn < clock env 0 then (Inl CheckInInPast, st)
         else case findRoomById (rooms st) (q_roomId req) of
           None \<Rightarrow> (Inl RoomNotFound, st)
         | Some rm \<Rightarrow>
             if \<not> isActive rm then (Inl RoomNotFound, st)
             else if maxOccupancy rm < q_adults req + childrenOrZero (q_children req)
               then (Inl OverCapacity, st)
             else if \<not> isAvailable (bookings st) rm checkIn checkOut
               then (Inl RoomNotAvailable, st)
             else
               (let (g, st1) = findOrCreateGuest (q_guestInfo req) st;
                    pr = calculatePricing (clock env 1) rm checkIn checkOut;
                    booking = newBooking g req pr PaymentPending Cash None Pending
                in case insertBooking env booking st1 of
                     Inl e \<Rightarrow> (Inl ServerError, st1)
                   | Inr (doc, st2) \<Rightarrow> (Inr doc, st2)))"

text \<open>\<open>router.post('/')\<close>: a booking with payment capture.\<close>

definition createBooking :: "Env \<Rightarrow> CreateRequest \<Rightarrow> State \<Rightarrow> (error + Booking) \<times> State" where
  "createBooking env req st =
     (let checkIn = q_checkInDate req; checkOut = q_checkOutDate req
      in if \<not> requestValid req \<or> q_paymentMethodId req = []
           then (Inl ValidationErrors, st)
         else if checkIn \<ge> checkOut then (Inl CheckOutNotAfterCheckIn, st)
         else if checkIn < clock env 0 then (Inl CheckInInPast, st)
         else case findRoomById (rooms st) (q_roomId req) of
           None \<Rightarrow> (Inl RoomNotFound, st)
         | Some rm \<Rightarrow>
             if \<not> isActive rm then (Inl RoomNotFound, st)
             else if maxOccupancy rm < q_adults req + childrenOrZero (q_children req)
               then (Inl OverCapacity, st)
             else if \<not> isAvailable (bookings st) rm checkIn checkOut
               then (Inl RoomNotAvailable, st)
             else
               (let (g, st1) = findOrCreateGuest (q_guestInfo req) st;
                    pr = calculatePricing (clock env 1) rm checkIn checkOut;
                    st2 = st1\<lparr>stripeRequests := stripeRequests st1 @
                            [PaymentIntentCreate (Math_round (p_totalAmount pr * 100))
                                                 (q_paymentMethodId req)]\<rparr>
                in case intentOutcome env of
                     StripeError \<Rightarrow> (Inl PaymentProcessingFailed, st2)
                   | PaymentIntent pid pstatus \<Rightarrow>
                       (let succeeded = (pstatus = ''succeeded'');
                            booking = newBooking g req pr
                                        (if succeeded then Paid else PaymentPending)
                                        CreditCard (Some pid)
                                        (if succeeded then Confirmed else Pending)
                        in case insertBooking env booking st2 of
                             Inl e \<Rightarrow> (Inl ServerError, st2)
                           | Inr (doc, st3) \<Rightarrow>
                               if succeeded then
                                 (let g1 = updateStayStats (clock env 2) (p_totalAmount pr) g;
                                      g2 = addLoyaltyPoints \<lfloor>p_totalAmount pr / 10\<rfloor> g1;
                                      st4 = saveGuest g2 (saveGuest g1 st3)
                                  in if emailSucceeds env then
                                       (let doc' = doc\<lparr>emailConfirmationSent := True\<rparr>
                                        in (Inr doc', saveBooking doc' st4))
                                     else (Inr doc, st4))
                               else (Inr doc, st3))))"

section \<open>Lookup (routes/bookings.js)\<close>

text \<open>
  \<open>router.get('/:bookingNumber')\<close>.  The route has no authentication middleware; whether
  the caller is authenticated is part of the request all the same, so that what the handler
  does with it can be stated.
\<close>

record GetRequest =
  g_bookingNumber :: string
  g_confirmationCode :: "string option"
  g_authenticated :: bool

definition getBooking :: "GetRequest \<Rightarrow> State \<Rightarrow> error + Booking" where
  "getBooking req st =
     (let booking =
            (if truthy (g_confirmationCode req) then
               find (\<lambda>b. bookingNumber b = g_bookingNumber req
                         \<and> Some (confirmationCode b) = g_confirmationCode req) (bookings st)
             else find (\<lambda>b. bookingNumber b = g_bookingNumber req) (bookings st))
      in case booking of None \<Rightarrow> Inl BookingNotFound | Some b \<Rightarrow> Inr b)"

section \<open>Cancellation (models/Booking.js, routes/bookings.js)\<close>

definition hoursUntilCheckIn :: "date \<Rightarrow> Booking \<Rightarrow> rat" where
  "hoursUntilCheckIn now this = of_int (checkInDate this - now) / (1000 * 60 * 60)"

definition canBeCancelled :: "date \<Rightarrow> Booking \<Rightarrow> bool" where
  "canBeCancelled now this \<longleftrightarrow> status this = Confirmed \<and> hoursUntilCheckIn now this > 24"

definition calculateCancellationFee :: "date \<Rightarrow> Booking \<Rightarrow> rat" where
  "calculateCancellationFee now this =
     (if hoursUntilCheckIn now this > 48 then 0
      else if hoursUntilCheckIn now this > 24 then totalAmount this * (25 / 100)
      else totalAmount this * (50 / 100))"

record CancelRequest =
  c_bookingNumber :: string
  c_confirmationCode :: string
  c_reason :: "string option"

text \<open>
  \<open>router.put('/:bookingNumber/cancel')\<close>.  The three readings of the clock are those of
  \<open>canBeCancelled\<close>, of \<open>calculateCancellationFee\<close> and of \<open>cancellationDate\<close>.
\<close>

definition cancelBooking :: "Env \<Rightarrow> CancelRequest \<Rightarrow> State \<Rightarrow> (error + Booking) \<times> State" where
  "cancelBooking env req st =
     (if c_confirmationCode req = []
         \<or> (case c_reason req of None \<Rightarrow> False | Some r \<Rightarrow> length r > 500)
      then (Inl ValidationErrors, st)
      else case find (\<lambda>b. bookingNumber b = c_bookingNumber req
                           \<and> confirmationCode b = c_confirmationCode req) (bookings st) of
        None \<Rightarrow> (Inl BookingNotFound, st)
      | Some booking \<Rightarrow>
          if \<not> canBeCancelled (clock env 0) booking then (Inl CannotBeCancelled, st)
          else
            (let fee = calculateCancellationFee (clock env 1) booking;
                 refund = totalAmount booking - fee;
                 callsStripe = (truthy (stripePaymentIntentId booking) \<and> refund > 0);
                 st1 = (if callsStripe then
                          st\<lparr>stripeRequests := stripeRequests st @
                               [RefundCreate (the (stripePaymentIntentId booking))
                                             (Math_round (refund * 100))]\<rparr>
                        else st)
             in if callsStripe \<and> \<not> refundSucceeds env then (Inl RefundProcessingFailed, st1)
                else
                  (let b' = booking\<lparr>status := Cancelled,
                                     cancellationReason := c_reason req,
                                     cancellationDate := Some (clock env 2),
                                     cancellationFee := fee,
                                     refundAmount := refund,
                                     paymentStatus := (if refund > 0 then Refunded else Paid)\<rparr>
                   in (Inr b', saveBooking b' st1))))"

section \<open>Check-in and check-out (routes/bookings.js)\<close>

text \<open>
  \<open>router.put('/:id/checkin')\<close>.  The booking is saved before the room is fetched; when the
  room is gone the handler throws after that save and answers 500.
\<close>

definition checkin :: "Env \<Rightarrow> nat \<Rightarrow> State \<Rightarrow> (error + Booking) \<times> State" where
  "checkin env i st =
     (if \<not> adminAuth env then (Inl Unauthorized, st)
      else case findBookingById (bookings st) i of
        None \<Rightarrow> (Inl BookingNotFound, st)
      | Some booking \<Rightarrow>
          if status booking \<noteq> Confirmed then (Inl MustBeConfirmed, st)
          else
            (let b' = booking\<lparr>status := CheckedIn, actualCheckInTime := Some (clock env 0)\<rparr>;
                 st1 = saveBooking b' st
             in case findRoomById (rooms st1) (room b') of
                  None \<Rightarrow> (Inl ServerError, st1)
                | Some rm \<Rightarrow> (Inr b', saveRoom (rm\<lparr>roomStatus := Occupied\<rparr>) st1)))"

text \<open>\<open>router.put('/:id/checkout')\<close>.\<close>

definition checkout :: "Env \<Rightarrow> nat \<Rightarrow> State \<Rightarrow> (error + Booking) \<times> State" where
  "checkout env i st =
     (if \<not> adminAuth env then (Inl Unauthorized, st)
      else case findBookingById (bookings st) i of
        None \<Rightarrow> (Inl BookingNotFound, st)
      | Some booking \<Rightarrow>
          if status booking \<noteq> CheckedIn then (Inl MustBeCheckedIn, st)
          else
            (let b' = booking\<lparr>status := CheckedOut, actualCheckOutTime := Some (clock env 0)\<rparr>;
                 st1 = saveBooking b' st
             in case findRoomById (rooms st1) (room b') of
                  None \<Rightarrow> (Inl ServerError, st1)
                | Some rm \<Rightarrow>
                    (Inr b', saveRoom (rm\<lparr>roomStatus := Available, cleaningStatus := Dirty,
                                          lastCleaning := Some (clock env 1)\<rparr>) st1)))"

section \<open>Revenue report (models/Booking.js, routes/bookings.js)\<close>

text \<open>
  The date operators \<open>$year\<close>, \<open>$month\<close>, \<open>$dayOfMonth\<close> of the database, which work in
  UTC on the proleptic Gregorian calendar: the civil date of a count of days since
  1970-01-01, then of an instant.
\<close>

definition civilFromDays :: "int \<Rightarrow> int \<times> int \<times> int" where
  "civilFromDays days =
     (let z = days + 719468;
          era = z div 146097;
          doe = z - era * 146097;
          yoe = (doe - doe div 1460 + doe div 36524 - doe div 146096) div 365;
          y = yoe + era * 400;
          doy = doe - (365 * yoe + yoe div 4 - yoe div 100);
          mp = (5 * doy + 2) div 153;
          d = doy - (153 * mp + 2) div 5 + 1;
          m = (if mp < 10 then mp + 3 else mp - 9)
      in (if m \<le> 2 then y + 1 else y, m, d))"

definition dateParts :: "date \<Rightarrow> int \<times> int \<times> int" where
  "dateParts t = civilFromDays (t div (1000 * 60 * 60 * 24))"

record RevenueRecord =
  period :: "int \<times> int \<times> int"
  totalRevenue :: rat
  bookingsCount :: nat
  averageRate :: rat

text \<open>The \<open>$match\<close> stage of \<open>generateRevenueReport\<close>.\<close>

definition revenueMatch :: "date \<Rightarrow> date \<Rightarrow> Booking \<Rightarrow> bool" where
  "revenueMatch startD endD b \<longleftrightarrow>
     status b \<in> set [Confirmed, CheckedIn, CheckedOut] \<and>
     checkInDate b \<ge> startD \<and> checkInDate b \<le> endD"

text \<open>The \<open>$group\<close> stage: one document for each distinct \<open>_id\<close>, with the accumulators
  \<open>$sum\<close>, \<open>$sum: 1\<close> and \<open>$avg\<close> over the documents of the group.\<close>

definition revenueGroup :: "Booking list \<Rightarrow> RevenueRecord list" where
  "revenueGroup bs =
     map (\<lambda>k. let grp = filter (\<lambda>b. dateParts (checkInDate b) = k) bs
               in \<lparr>period = k,
                   totalRevenue = sum_list (map totalAmount grp),
                   bookingsCount = length grp,
                   averageRate = sum_list (map roomRate grp) / of_nat (length grp)\<rparr>)
         (remdups (map (\<lambda>b. dateParts (checkInDate b)) bs))"

text \<open>\<open>bookingSchema.statics.generateRevenueReport\<close>; the \<open>$sort\<close> stage orders by year,
  then month, then day, which is the lexicographic order of the key.\<close>

definition generateRevenueReport :: "Booking list \<Rightarrow> date \<Rightarrow> date \<Rightarrow> RevenueRecord list" where
  "generateRevenueReport bs startD endD =
     sort_key period (revenueGroup (filter (revenueMatch startD endD) bs))"

record RevenueSummary =
  revenueData :: "RevenueRecord list"
  sumRevenue :: rat
  totalBookings :: nat
  averageBookingValue :: rat
  dateRange :: "date \<times> date"

text \<open>\<open>router.get('/analytics/revenue')\<close>; \<open>reduce\<close> is a left fold.\<close>

definition revenueAnalytics :: "Env \<Rightarrow> date option \<Rightarrow> date option \<Rightarrow> State \<Rightarrow> error + RevenueSummary" where
  "revenueAnalytics env qStart qEnd st =
     (if \<not> adminAuth env then Inl Unauthorized
      else
        (let startD = (case qStart of Some d \<Rightarrow> d
                       | None \<Rightarrow> clock env 0 - 30 * 24 * 60 * 60 * 1000);
             endD = (case qEnd of Some d \<Rightarrow> d | None \<Rightarrow> clock env 1);
             revData = generateRevenueReport (bookings st) startD endD;
             totRevenue = foldl (\<lambda>sum day. sum + totalRevenue day) 0 revData;
             totBookings = foldl (\<lambda>sum day. sum + bookingsCount day) 0 revData;
             avgValue = (if totBookings > 0 then totRevenue / of_nat totBookings else 0)
         in Inr \<lparr>revenueData = revData, sumRevenue = totRevenue, totalBookings = totBookings,
                 averageBookingValue = avgValue, dateRange = (startD, endD)\<rparr>))"

section \<open>Sequential executions\<close>

text \<open>The booking operations that write to the store, each with the data it receives.\<close>

datatype operation =
    RequestCreation Env CreateRequest
  | PaidCreation Env CreateRequest
  | Cancellation Env CancelRequest
  | CheckIn Env nat
  | CheckOut Env nat

fun perform :: "operation \<Rightarrow> State \<Rightarrow> State" where
  "perform (RequestCreation env req) st = snd (createBookingRequest env req st)"
| "perform (PaidCreation env req) st = snd (createBooking env req st)"
| "perform (Cancellation env req) st = snd (cancelBooking env req st)"
| "perform (CheckIn env i) st = snd (checkin env i st)"
| "perform (CheckOut env i) st = snd (checkout env i st)"

text \<open>The states a store that starts without bookings can reach.\<close>

inductive reachable :: "State \<Rightarrow> bool" where
  initial: "bookings st = [] \<Longrightarrow> reachable st"
| step: "reachable st \<Longrightarrow> reachable (perform op st)"

text \<open>The reservations that occupy a room's calendar, and the invariant on a collection:
  two such reservations of one room, at different positions, have disjoint
  \<open>[checkInDate, checkOutDate)\<close> intervals.\<close>

definition occupying :: "Booking \<Rightarrow> bool" where
  "occupying b \<longleftrightarrow> status b = Confirmed \<or> status b = CheckedIn"

definition disjointStays :: "Booking list \<Rightarrow> bool" where
  "disjointStays bs \<longleftrightarrow>
     (\<forall>i < length bs. \<forall>j < length bs.
        i \<noteq> j \<and> room (bs ! i) = room (bs ! j) \<and> occupying (bs ! i) \<and> occupying (bs ! j) \<longrightarrow>
        {checkInDate (bs ! i) ..< checkOutDate (bs ! i)}
          \<inter> {checkInDate (bs ! j) ..< checkOutDate (bs ! j)} = {})"

section \<open>Predicates of the statements and proofs\<close>

text \<open>The invariant of the store: the stays are disjoint and every stored \<open>_id\<close> is below
  the next fresh one.\<close>

definition storeInv :: "State \<Rightarrow> bool" where
  "storeInv st \<longleftrightarrow>
     disjointStays (bookings st) \<and> (\<forall>b \<in> set (bookings st). booking_id b < nextId st)"

text \<open>What a creation route does to the bookings collection when it changes it: one insert
  that the availability check allowed.\<close>

definition insertedAfterCheck :: "CreateRequest \<Rightarrow> State \<Rightarrow> State \<Rightarrow> bool" where
  "insertedAfterCheck req st st' \<longleftrightarrow>
     (\<exists>rm doc. findRoomById (rooms st) (q_roomId req) = Some rm \<and>
        isAvailable (bookings st) rm (q_checkInDate req) (q_checkOutDate req) \<and>
        bookings st' = bookings st @ [doc] \<and> room doc = q_roomId req \<and>
        checkInDate doc = q_checkInDate req \<and> checkOutDate doc = q_checkOutDate req \<and>
        booking_id doc < nextId st')"

text \<open>A route that rewrites one stored booking in place: the document keeps its \<open>_id\<close>,
  and when it occupies the calendar afterwards it did so before, for the same room and
  the same dates.\<close>

definition rewritten :: "Booking list \<Rightarrow> Booking list \<Rightarrow> bool" where
  "rewritten bs bs' \<longleftrightarrow>
     (\<exists>i b. bs' = bs[i := b] \<and>
        (i < length bs \<longrightarrow> booking_id b = booking_id (bs ! i) \<and>
           (occupying b \<longrightarrow> occupying (bs ! i) \<and> room b = room (bs ! i) \<and>
              checkInDate b = checkInDate (bs ! i) \<and> checkOutDate b = checkOutDate (bs ! i))))"

text \<open>The identifiers the hook generates from the year and the random source.\<close>

definition generatedNumber :: "Env \<Rightarrow> string" where
  "generatedNumber env =
     ''OVH'' @ string_of_nat (fullYear env)
            @ string_of_nat (nat \<lfloor>100000 + random env 0 * 900000\<rfloor>)"

definition generatedCode :: "Env \<Rightarrow> string" where
  "generatedCode env = codeLoop (random env) 1 8 []"

text \<open>What a creation route has done when it answers with a booking.\<close>

definition createdFrom :: "Env \<Rightarrow> CreateRequest \<Rightarrow> State \<Rightarrow> Room \<Rightarrow> Booking \<Rightarrow> bool" where
  "createdFrom env req st rm doc \<longleftrightarrow>
     findRoomById (rooms st) (q_roomId req) = Some rm \<and>
     q_checkInDate req < q_checkOutDate req \<and>
     (let pr = calculatePricing (clock env 1) rm (q_checkInDate req) (q_checkOutDate req)
      in roomRate doc = p_roomRate pr \<and> numberOfNights doc = p_numberOfNights pr \<and>
         subtotal doc = p_subtotal pr \<and> taxes doc = p_taxes pr \<and>
         totalAmount doc = p_totalAmount pr) \<and>
     bookingNumber doc = generatedNumber env \<and> confirmationCode doc = generatedCode env \<and>
     (\<forall>x \<in> set (bookings st). bookingNumber x \<noteq> generatedNumber env
        \<and> confirmationCode x \<noteq> generatedCode env)"

text \<open>The booking document a successful cancellation writes.\<close>

definition cancelledDoc :: "Env \<Rightarrow> CancelRequest \<Rightarrow> Booking \<Rightarrow> Booking" where
  "cancelledDoc env req booking =
     (let fee = calculateCancellationFee (clock env 1) booking;
          refund = totalAmount booking - fee
      in booking\<lparr>status := Cancelled,
                 cancellationReason := c_reason req,
                 cancellationDate := Some (clock env 2),
                 cancellationFee := fee,
                 refundAmount := refund,
                 paymentStatus := (if refund > 0 then Refunded else Paid)\<rparr>)"

section \<open>A small hotel, for concrete runs\<close>

text \<open>One room at 100 a night, no seasonal override; the clock stands at 2029-12-01; the
  stays are 2030-01-10 to 2030-01-13 and 2030-01-13 to 2030-01-15 (UTC midnights).\<close>

definition exampleRoom :: Room where
  "exampleRoom = \<lparr>room_id = 1, maxOccupancy = 2, basePrice = 100, seasonalPricing = [],
     roomStatus = Available, isActive = True, cleaningStatus = Clean, lastCleaning = None\<rparr>"

definition exampleStore :: State where
  "exampleStore = \<lparr>rooms = [exampleRoom], bookings = [], guests = [], nextId = 0,
     stripeRequests = []\<rparr>"

definition exampleEnv :: "rat \<Rightarrow> Env" where
  "exampleEnv r = \<lparr>clock = (\<lambda>k. 1890777600000), fullYear = 2029, random = (\<lambda>k. r),
     intentOutcome = PaymentIntent ''pi_1'' ''succeeded'', refundSucceeds = True,
     emailSucceeds = True, adminAuth = True\<rparr>"

definition exampleGuestInfo :: GuestInfo where
  "exampleGuestInfo = \<lparr>firstName = ''Ada'', lastName = ''Byron'', email = ''ada@example.org'',
     phone = ''1''\<rparr>"

definition exampleRequest :: "date \<Rightarrow> date \<Rightarrow> CreateRequest" where
  "exampleRequest ci co = \<lparr>q_guestInfo = exampleGuestInfo, q_roomId = 1, q_checkInDate = ci,
     q_checkOutDate = co, q_adults = 2, q_children = None, q_paymentMethodId = ''pm_card''\<rparr>"

text \<open>The first stay once booked and paid, and the store after that booking.\<close>

definition exampleBooking :: Booking where
  "exampleBooking = \<lparr>booking_id = 1, bookingNumber = ''OVH2029550000'',
     confirmationCode = ''SSSSSSSS'', guest = 0, room = 1,
     checkInDate = 1894233600000, checkOutDate = 1894492800000, adults = 2, children = 0,
     roomRate = 100, numberOfNights = 3, subtotal = 300, taxes = 36, totalAmount = 336,
     paymentStatus = Paid, paymentMethod = CreditCard, stripePaymentIntentId = Some ''pi_1'',
     status = Confirmed, actualCheckInTime = None, actualCheckOutTime = None,
     cancellationReason = None, cancellationDate = None, cancellationFee = 0,
     refundAmount = 0, emailConfirmationSent = True\<rparr>"

definition exampleStore1 :: State where
  "exampleStore1 = \<lparr>rooms = [exampleRoom], bookings = [exampleBooking],
     guests = [\<lparr>guest_id = 0, info = exampleGuestInfo, isRegistered = False, totalStays = 1,
                totalSpent = 336, lastStayDate = Some 1890777600000, isVIP = False,
                points = 33, tier = Bronze\<rparr>],
     nextId = 2, stripeRequests = [PaymentIntentCreate 33600 ''pm_card'']\<rparr>"

text \<open>A room with a seasonal override that doubles the price from 2029-11-22 to 2029-12-03,
  and a store that holds it.\<close>

definition seasonalRoom :: Room where
  "seasonalRoom = exampleRoom\<lparr>seasonalPricing :=
     [\<lparr>season = ''Winter'', startDate = 1890000000000, endDate = 1891000000000,
       priceMultiplier = 2\<rparr>]\<rparr>"

definition seasonalStore :: State where
  "seasonalStore = exampleStore\<lparr>rooms := [seasonalRoom]\<rparr>"

text \<open>Thirty hours and ten hours before the first stay's check-in, a cancellation request
  for that stay, a store whose only booking was confirmed without any payment, and a store
  whose only booking is still pending.\<close>

definition exampleEnvAt :: "date \<Rightarrow> bool \<Rightarrow> Env" where
  "exampleEnvAt t refundOk = (exampleEnv (1/2))\<lparr>clock := (\<lambda>k. t), refundSucceeds := refundOk\<rparr>"

definition exampleCancel :: CancelRequest where
  "exampleCancel = \<lparr>c_bookingNumber = ''OVH2029550000'', c_confirmationCode = ''SSSSSSSS'',
     c_reason = None\<rparr>"

definition unpaidBooking :: Booking where
  "unpaidBooking = exampleBooking\<lparr>paymentStatus := PaymentPending,
     stripePaymentIntentId := None\<rparr>"

definition unpaidStore :: State where
  "unpaidStore = exampleStore1\<lparr>bookings := [unpaidBooking]\<rparr>"

definition pendingStore :: State where
  "pendingStore = exampleStore1\<lparr>bookings := [exampleBooking\<lparr>status := Pending\<rparr>]\<rparr>"

text \<open>Five bookings for the report: a stay from 2030-01-13, two arrivals on 2030-01-10
  (one already checked out), a cancelled booking and a pending one.\<close>

definition reportBookings :: "Booking list" where
  "reportBookings =
     [exampleBooking\<lparr>booking_id := 2, checkInDate := 1894492800000,
        checkOutDate := 1894665600000, numberOfNights := 2, subtotal := 200, taxes := 24,
        totalAmount := 224\<rparr>,
      exampleBooking,
      exampleBooking\<lparr>booking_id := 3, room := 2, checkInDate := 1894276800000,
        roomRate := 200, subtotal := 400, taxes := 48, totalAmount := 448,
        status := CheckedOut\<rparr>,
      exampleBooking\<lparr>booking_id := 4, room := 3, checkInDate := 1894406400000,
        status := Cancelled\<rparr>,
      exampleBooking\<lparr>booking_id := 5, room := 4, status := Pending\<rparr>]"

section \<open>Availability: results\<close>

lemma find_None_iff_no_match: "find P xs = None \<longleftrightarrow> \<not> (\<exists>x \<in> set xs. P x)"
  by (induction xs) auto

lemma conflictFilter_unfold:
  "conflictFilter rid ci co b \<longleftrightarrow>
     room b = rid \<and> (status b = Confirmed \<or> status b = CheckedIn) \<and>
     checkInDate b < co \<and> checkOutDate b > ci"
  by (auto simp: conflictFilter_def)

lemma findAvailable_as_filter:
  "findAvailable rs bs ci co g =
     filter (\<lambda>r. roomStatus r = Available \<and> isActive r \<and> maxOccupancy r \<ge> g \<and>
                 filter (conflictFilter (room_id r) ci co) bs = []) rs"
  unfolding findAvailable_def Let_def
  by (induction rs) auto

text \<open>
  C2. \<open>isAvailable\<close> is true exactly when the room is active, its operational status is
  Available, and no booking of that room in status Confirmed or Checked In satisfies
  \<open>checkInDate < checkOut\<close> and \<open>checkOutDate > checkIn\<close>; \<open>findAvailable\<close> returns exactly
  the rooms (in catalogue order) that are active, Available, of capacity at least
  \<open>minCapacity\<close>, and without such a conflicting booking.
\<close>

theorem C2_availability:
  "(isAvailable bs r checkIn checkOut \<longleftrightarrow>
      isActive r \<and> roomStatus r = Available \<and>
      \<not> (\<exists>b \<in> set bs. room b = room_id r \<and> (status b = Confirmed \<or> status b = CheckedIn) \<and>
            checkInDate b < checkOut \<and> checkOutDate b > checkIn))
   \<and>
   findAvailable rs bs checkIn checkOut minCapacity =
     filter (\<lambda>r. isActive r \<and> roomStatus r = Available \<and> maxOccupancy r \<ge> minCapacity \<and>
       \<not> (\<exists>b \<in> set bs. room b = room_id r \<and> (status b = Confirmed \<or> status b = CheckedIn) \<and>
            checkInDate b < checkOut \<and> checkOutDate b > checkIn)) rs"
proof
  show "isAvailable bs r checkIn checkOut \<longleftrightarrow>
      isActive r \<and> roomStatus r = Available \<and>
      \<not> (\<exists>b \<in> set bs. room b = room_id r \<and> (status b = Confirmed \<or> status b = CheckedIn) \<and>
            checkInDate b < checkOut \<and> checkOutDate b > checkIn)"
    unfolding isAvailable_def Let_def find_None_iff_no_match conflictFilter_unfold by blast
next
  have "\<And>r. filter (conflictFilter (room_id r) checkIn checkOut) bs = [] \<longleftrightarrow>
      \<not> (\<exists>b \<in> set bs. room b = room_id r \<and> (status b = Confirmed \<or> status b = CheckedIn) \<and>
            checkInDate b < checkOut \<and> checkOutDate b > checkIn)"
    unfolding filter_empty_conv conflictFilter_unfold by blast
  then show "findAvailable rs bs checkIn checkOut minCapacity =
     filter (\<lambda>r. isActive r \<and> roomStatus r = Available \<and> maxOccupancy r \<ge> minCapacity \<and>
       \<not> (\<exists>b \<in> set bs. room b = room_id r \<and> (status b = Confirmed \<or> status b = CheckedIn) \<and>
            checkInDate b < checkOut \<and> checkOutDate b > checkIn)) rs"
    unfolding findAvailable_as_filter by (intro filter_cong) auto
qed

theorem C2_availability_witness:
  "isAvailable [exampleBooking] exampleRoom 1894492800000 1894665600000
   \<and> \<not> isAvailable [exampleBooking] exampleRoom 1894406400000 1894665600000
   \<and> isAvailable [exampleBooking\<lparr>status := Pending\<rparr>] exampleRoom 1894406400000 1894665600000
   \<and> findAvailable [exampleRoom] [exampleBooking] 1894492800000 1894665600000 2 = [exampleRoom]
   \<and> findAvailable [exampleRoom] [exampleBooking] 1894406400000 1894665600000 2 = []"
  using C2_availability[of "[exampleBooking]" exampleRoom 1894492800000 1894665600000
          "[exampleRoom]" 2]
    C2_availability[of "[exampleBooking]" exampleRoom 1894406400000 1894665600000
          "[exampleRoom]" 2]
    C2_availability[of "[exampleBooking\<lparr>status := Pending\<rparr>]" exampleRoom 1894406400000
          1894665600000 "[]" 2]
  by (simp add: exampleBooking_def exampleRoom_def)

section \<open>The disjoint-stays invariant\<close>

lemma overlap_free_disjoint:
  fixes a b c d :: int
  assumes "\<not> (a < d \<and> b > c)"
  shows "{a ..< b} \<inter> {c ..< d} = {}"
  using assms by auto

lemma disjointStays_append:
  assumes "disjointStays bs"
    and "occupying b \<Longrightarrow> \<forall>x \<in> set bs. room x = room b \<and> occupying x \<longrightarrow>
           {checkInDate x ..< checkOutDate x} \<inter> {checkInDate b ..< checkOutDate b} = {}"
  shows "disjointStays (bs @ [b])"
  unfolding disjointStays_def
proof (intro allI impI)
  fix i j
  assume i: "i < length (bs @ [b])" and j: "j < length (bs @ [b])"
    and h: "i \<noteq> j \<and> room ((bs @ [b]) ! i) = room ((bs @ [b]) ! j) \<and>
            occupying ((bs @ [b]) ! i) \<and> occupying ((bs @ [b]) ! j)"
  consider (old) "i < length bs" "j < length bs"
    | (newj) "i < length bs" "j = length bs"
    | (newi) "i = length bs" "j < length bs"
    using i j h by (cases "i < length bs"; cases "j < length bs") auto
  then show "{checkInDate ((bs @ [b]) ! i) ..< checkOutDate ((bs @ [b]) ! i)}
          \<inter> {checkInDate ((bs @ [b]) ! j) ..< checkOutDate ((bs @ [b]) ! j)} = {}"
  proof cases
    case old
    with h assms(1) show ?thesis
      unfolding disjointStays_def by (simp add: nth_append)
  next
    case newj
    with h have occ: "occupying b" and x: "occupying (bs ! i)" "room (bs ! i) = room b"
      by (simp_all add: nth_append)
    from newj have "bs ! i \<in> set bs" by simp
    with assms(2)[OF occ] x
    have "{checkInDate (bs ! i) ..< checkOutDate (bs ! i)} \<inter> {checkInDate b ..< checkOutDate b} = {}"
      by blast
    with newj show ?thesis by (simp add: nth_append)
  next
    case newi
    with h have occ: "occupying b" and x: "occupying (bs ! j)" "room (bs ! j) = room b"
      by (simp_all add: nth_append)
    from newi have "bs ! j \<in> set bs" by simp
    with assms(2)[OF occ] x
    have "{checkInDate (bs ! j) ..< checkOutDate (bs ! j)} \<inter> {checkInDate b ..< checkOutDate b} = {}"
      by blast
    with newi show ?thesis by (simp add: nth_append Int_commute)
  qed
qed

lemma disjointStays_update:
  assumes "disjointStays bs"
    and "occupying b \<Longrightarrow> i < length bs \<Longrightarrow>
           occupying (bs ! i) \<and> room b = room (bs ! i) \<and>
           checkInDate b = checkInDate (bs ! i) \<and> checkOutDate b = checkOutDate (bs ! i)"
  shows "disjointStays (bs[i := b])"
  unfolding disjointStays_def
proof (intro allI impI)
  fix k j
  assume k: "k < length (bs[i := b])" and j: "j < length (bs[i := b])"
    and h: "k \<noteq> j \<and> room (bs[i := b] ! k) = room (bs[i := b] ! j) \<and>
            occupying (bs[i := b] ! k) \<and> occupying (bs[i := b] ! j)"
  from k j have kl: "k < length bs" and jl: "j < length bs" by simp_all
  have same: "\<And>n. n < length bs \<Longrightarrow> occupying (bs[i := b] ! n) \<Longrightarrow>
      occupying (bs ! n) \<and> room (bs[i := b] ! n) = room (bs ! n) \<and>
      checkInDate (bs[i := b] ! n) = checkInDate (bs ! n) \<and>
      checkOutDate (bs[i := b] ! n) = checkOutDate (bs ! n)"
  proof -
    fix n assume n: "n < length bs" and o: "occupying (bs[i := b] ! n)"
    show "occupying (bs ! n) \<and> room (bs[i := b] ! n) = room (bs ! n) \<and>
      checkInDate (bs[i := b] ! n) = checkInDate (bs ! n) \<and>
      checkOutDate (bs[i := b] ! n) = checkOutDate (bs ! n)"
    proof (cases "n = i")
      case True
      with n o have "occupying b" "i < length bs" by simp_all
      from assms(2)[OF this] True n show ?thesis by simp
    next
      case False
      with o show ?thesis by simp
    qed
  qed
  from same[OF kl] same[OF jl] h assms(1) kl jl
  show "{checkInDate (bs[i := b] ! k) ..< checkOutDate (bs[i := b] ! k)}
          \<inter> {checkInDate (bs[i := b] ! j) ..< checkOutDate (bs[i := b] ! j)} = {}"
    unfolding disjointStays_def by metis
qed

lemma find_indexOfId:
  assumes "find (\<lambda>x. idf x = i) xs = Some x"
  shows "indexOfId idf i xs < length xs \<and> xs ! indexOfId idf i xs = x"
  using assms unfolding indexOfId_def
  by (induction xs) (auto split: if_splits)

lemma indexOfId_nth:
  "indexOfId idf i xs < length xs \<Longrightarrow> idf (xs ! indexOfId idf i xs) = i"
  unfolding indexOfId_def
  using nth_length_takeWhile[of "\<lambda>x. idf x \<noteq> i" xs] by auto

lemma indexOfId_fresh:
  "\<forall>x \<in> set xs. idf x \<noteq> i \<Longrightarrow> idf y = i \<Longrightarrow> indexOfId idf i (xs @ [y]) = length xs"
  unfolding indexOfId_def by (induction xs) auto


lemma saveGuest_fields [simp]:
  "bookings (saveGuest g st) = bookings st" "nextId (saveGuest g st) = nextId st"
  "rooms (saveGuest g st) = rooms st" "stripeRequests (saveGuest g st) = stripeRequests st"
  by (simp_all add: saveGuest_def)

lemma saveRoom_fields [simp]:
  "bookings (saveRoom r st) = bookings st" "nextId (saveRoom r st) = nextId st"
  "guests (saveRoom r st) = guests st" "stripeRequests (saveRoom r st) = stripeRequests st"
  by (simp_all add: saveRoom_def)

lemma saveBooking_fields [simp]:
  "rooms (saveBooking b st) = rooms st" "nextId (saveBooking b st) = nextId st"
  "guests (saveBooking b st) = guests st" "stripeRequests (saveBooking b st) = stripeRequests st"
  "bookings (saveBooking b st) = (bookings st)[indexOfId booking_id (booking_id b) (bookings st) := b]"
  by (simp_all add: saveBooking_def)

lemma findOrCreateGuest_fields:
  assumes "findOrCreateGuest gi st = (g, st1)"
  shows "bookings st1 = bookings st" "rooms st1 = rooms st" "nextId st \<le> nextId st1"
    "stripeRequests st1 = stripeRequests st"
  using assms by (auto simp: findOrCreateGuest_def Let_def split: option.splits)

lemma preValidate_fields [simp]:
  "room (preValidate y r b) = room b" "status (preValidate y r b) = status b"
  "checkInDate (preValidate y r b) = checkInDate b"
  "checkOutDate (preValidate y r b) = checkOutDate b"
  "booking_id (preValidate y r b) = booking_id b"
  "roomRate (preValidate y r b) = roomRate b" "subtotal (preValidate y r b) = subtotal b"
  "taxes (preValidate y r b) = taxes b" "totalAmount (preValidate y r b) = totalAmount b"
  by (simp_all add: preValidate_def Let_def split: prod.splits)

lemma insertBooking_Inr:
  assumes "insertBooking env b st = Inr (doc, st')"
  shows "bookings st' = bookings st @ [doc]" "nextId st' = Suc (nextId st)"
    "booking_id doc = nextId st" "rooms st' = rooms st"
    "room doc = room b" "status doc = status b"
    "checkInDate doc = checkInDate b" "checkOutDate doc = checkOutDate b"
  using assms by (auto simp: insertBooking_def Let_def split: if_splits)

lemma findRoomById_Some: "findRoomById rs i = Some rm \<Longrightarrow> room_id rm = i \<and> rm \<in> set rs"
  unfolding findRoomById_def by (induction rs) (auto split: if_splits)

lemma isAvailable_no_conflict:
  assumes "isAvailable bs rm ci co" "x \<in> set bs" "room x = room_id rm" "occupying x"
  shows "{checkInDate x ..< checkOutDate x} \<inter> {ci ..< co} = {}"
proof -
  from assms(1) have "find (conflictFilter (room_id rm) ci co) bs = None"
    by (simp add: isAvailable_def)
  with assms(2) have "\<not> conflictFilter (room_id rm) ci co x"
    by (simp add: find_None_iff_no_match)
  with assms(3,4) have "\<not> (checkInDate x < co \<and> checkOutDate x > ci)"
    by (simp add: conflictFilter_unfold occupying_def)
  then show ?thesis by (rule overlap_free_disjoint)
qed

lemma newBooking_fields [simp]:
  "room (newBooking g req pr ps pm i s) = q_roomId req"
  "checkInDate (newBooking g req pr ps pm i s) = q_checkInDate req"
  "checkOutDate (newBooking g req pr ps pm i s) = q_checkOutDate req"
  "status (newBooking g req pr ps pm i s) = s"
  by (simp_all add: newBooking_def)

lemma createBookingRequest_effect:
  "(bookings (snd (createBookingRequest env req st)) = bookings st
      \<or> insertedAfterCheck req st (snd (createBookingRequest env req st)))
   \<and> nextId st \<le> nextId (snd (createBookingRequest env req st))"
proof (cases "findRoomById (rooms st) (q_roomId req)")
  case None
  then show ?thesis by (simp add: createBookingRequest_def Let_def)
next
  case (Some rm)
  obtain g st1 where g: "findOrCreateGuest (q_guestInfo req) st = (g, st1)"
    by (cases "findOrCreateGuest (q_guestInfo req) st")
  note f = findOrCreateGuest_fields[OF g]
  let ?b = "newBooking g req (calculatePricing (clock env 1) rm (q_checkInDate req) (q_checkOutDate req)) PaymentPending Cash None Pending"
  show ?thesis
  proof (cases "insertBooking env ?b st1")
    case (Inl e)
    with Some g f show ?thesis
      by (simp add: createBookingRequest_def Let_def)
  next
    case (Inr p)
    obtain doc st2 where p: "p = (doc, st2)" by (cases p)
    note i = insertBooking_Inr[OF Inr[unfolded p]]
    from Some g f i p Inr show ?thesis
      by (auto simp: createBookingRequest_def Let_def insertedAfterCheck_def)
  qed
qed


lemma createBooking_effect:
  assumes ids: "\<forall>b \<in> set (bookings st). booking_id b < nextId st"
  shows "(bookings (snd (createBooking env req st)) = bookings st
      \<or> insertedAfterCheck req st (snd (createBooking env req st)))
   \<and> nextId st \<le> nextId (snd (createBooking env req st))"
proof (cases "findRoomById (rooms st) (q_roomId req)")
  case None
  then show ?thesis by (simp add: createBooking_def Let_def)
next
  case (Some rm)
  define G where "G \<longleftrightarrow> requestValid req \<and> q_paymentMethodId req \<noteq> [] \<and>
     q_checkInDate req < q_checkOutDate req \<and>
     \<not> q_checkInDate req < clock env 0 \<and> isActive rm \<and>
     \<not> maxOccupancy rm < q_adults req + childrenOrZero (q_children req) \<and>
     isAvailable (bookings st) rm (q_checkInDate req) (q_checkOutDate req)"
  show ?thesis
  proof (cases G)
    case False
    then have "snd (createBooking env req st) = st"
      using Some by (auto simp add: createBooking_def Let_def G_def)
    then show ?thesis by simp
  next
    case True
    obtain g st1 where g: "findOrCreateGuest (q_guestInfo req) st = (g, st1)"
      by (cases "findOrCreateGuest (q_guestInfo req) st")
    note f = findOrCreateGuest_fields[OF g]
    define pr where
      "pr = calculatePricing (clock env 1) rm (q_checkInDate req) (q_checkOutDate req)"
    define st2 where "st2 = st1\<lparr>stripeRequests := stripeRequests st1 @
        [PaymentIntentCreate (Math_round (p_totalAmount pr * 100)) (q_paymentMethodId req)]\<rparr>"
    have st2: "bookings st2 = bookings st" "rooms st2 = rooms st" "nextId st \<le> nextId st2"
      using f by (simp_all add: st2_def)
    have tail: "createBooking env req st =
       (case intentOutcome env of
          StripeError \<Rightarrow> (Inl PaymentProcessingFailed, st2)
        | PaymentIntent pid pstatus \<Rightarrow>
            (case insertBooking env
                    (newBooking g req pr (if pstatus = ''succeeded'' then Paid else PaymentPending)
                       CreditCard (Some pid)
                       (if pstatus = ''succeeded'' then Confirmed else Pending)) st2 of
               Inl e \<Rightarrow> (Inl ServerError, st2)
             | Inr (doc, st3) \<Rightarrow>
                 if pstatus = ''succeeded'' then
                   (if emailSucceeds env then
                      (Inr (doc\<lparr>emailConfirmationSent := True\<rparr>),
                       saveBooking (doc\<lparr>emailConfirmationSent := True\<rparr>)
                         (saveGuest (addLoyaltyPoints \<lfloor>p_totalAmount pr / 10\<rfloor>
                                       (updateStayStats (clock env 2) (p_totalAmount pr) g))
                            (saveGuest (updateStayStats (clock env 2) (p_totalAmount pr) g) st3)))
                    else (Inr doc,
                          saveGuest (addLoyaltyPoints \<lfloor>p_totalAmount pr / 10\<rfloor>
                                       (updateStayStats (clock env 2) (p_totalAmount pr) g))
                            (saveGuest (updateStayStats (clock env 2) (p_totalAmount pr) g) st3)))
                 else (Inr doc, st3)))"
      using True Some g unfolding G_def createBooking_def Let_def pr_def st2_def
      by (simp del: One_nat_def cong: intent_outcome.case_cong sum.case_cong)
    show ?thesis
    proof (cases "intentOutcome env")
      case StripeError
      with tail st2 show ?thesis by simp
    next
      case (PaymentIntent pid pstatus)
      define b where "b = newBooking g req pr
          (if pstatus = ''succeeded'' then Paid else PaymentPending) CreditCard (Some pid)
          (if pstatus = ''succeeded'' then Confirmed else Pending)"
      show ?thesis
      proof (cases "insertBooking env b st2")
        case (Inl e)
        with tail PaymentIntent st2 show ?thesis by (simp add: b_def)
      next
        case (Inr p)
        obtain doc st3 where p: "p = (doc, st3)" by (cases p)
        note i = insertBooking_Inr[OF Inr[unfolded p]]
        have fresh: "\<forall>x \<in> set (bookings st). booking_id x \<noteq> booking_id doc"
          using ids i(3) st2(3) by fastforce
        have upd: "(bookings st @ [doc])[indexOfId booking_id (booking_id doc) (bookings st @ [doc])
                     := doc\<lparr>emailConfirmationSent := True\<rparr>]
                   = bookings st @ [doc\<lparr>emailConfirmationSent := True\<rparr>]"
          using indexOfId_fresh[OF fresh, of doc] by simp
        have docb: "room doc = q_roomId req" "checkInDate doc = q_checkInDate req"
          "checkOutDate doc = q_checkOutDate req"
          using i by (simp_all add: b_def)
        have r: "snd (createBooking env req st) =
            (if pstatus = ''succeeded'' then
               (if emailSucceeds env then
                  saveBooking (doc\<lparr>emailConfirmationSent := True\<rparr>)
                    (saveGuest (addLoyaltyPoints \<lfloor>p_totalAmount pr / 10\<rfloor>
                                       (updateStayStats (clock env 2) (p_totalAmount pr) g))
                            (saveGuest (updateStayStats (clock env 2) (p_totalAmount pr) g) st3))
                else saveGuest (addLoyaltyPoints \<lfloor>p_totalAmount pr / 10\<rfloor>
                                       (updateStayStats (clock env 2) (p_totalAmount pr) g))
                            (saveGuest (updateStayStats (clock env 2) (p_totalAmount pr) g) st3))
             else st3)"
          using Inr p unfolding tail PaymentIntent b_def by simp
        have n: "nextId (snd (createBooking env req st)) = Suc (nextId st2)"
          unfolding r using i(2) by simp
        have "bookings (snd (createBooking env req st)) = bookings st @ [doc]
            \<or> bookings (snd (createBooking env req st))
                = bookings st @ [doc\<lparr>emailConfirmationSent := True\<rparr>]"
          unfolding r using i(1) st2(1) upd by simp
        then obtain d where d: "bookings (snd (createBooking env req st)) = bookings st @ [d]"
          "room d = q_roomId req" "checkInDate d = q_checkInDate req"
          "checkOutDate d = q_checkOutDate req" "booking_id d = nextId st2"
          using docb i(3) by auto
        have "insertedAfterCheck req st (snd (createBooking env req st))"
          unfolding insertedAfterCheck_def
          using Some True d n by (auto simp: G_def)
        with n st2(3) show ?thesis by simp
      qed
    qed
  qed
qed


lemma rewritten_disjointStays:
  assumes "rewritten bs bs'" "disjointStays bs"
  shows "disjointStays bs'"
proof -
  from assms(1) obtain i b where *: "bs' = bs[i := b]"
    "i < length bs \<Longrightarrow> occupying b \<Longrightarrow> occupying (bs ! i) \<and> room b = room (bs ! i) \<and>
              checkInDate b = checkInDate (bs ! i) \<and> checkOutDate b = checkOutDate (bs ! i)"
    unfolding rewritten_def by blast
  show ?thesis unfolding *(1)
    by (rule disjointStays_update[OF assms(2)]) (use *(2) in blast)
qed

lemma rewritten_ids:
  assumes "rewritten bs bs'" "\<forall>b \<in> set bs. booking_id b < n"
  shows "\<forall>b \<in> set bs'. booking_id b < n"
proof -
  from assms(1) obtain i b where *: "bs' = bs[i := b]"
    "i < length bs \<Longrightarrow> booking_id b = booking_id (bs ! i)"
    unfolding rewritten_def by blast
  show ?thesis
  proof (cases "i < length bs")
    case True
    with *(2) assms(2) have "booking_id b < n" by simp
    with assms(2) show ?thesis
      unfolding *(1) using set_update_subset_insert[of bs i b] by auto
  next
    case False
    then have "bs[i := b] = bs" by (simp add: list_update_beyond)
    with assms(2) show ?thesis unfolding *(1) by simp
  qed
qed

lemma find_Some_holds: "find P xs = Some x \<Longrightarrow> P x \<and> x \<in> set xs"
  by (induction xs) (auto split: if_splits)

lemma rewritten_by_save:
  assumes "\<not> occupying b \<or>
     (findBookingById bs (booking_id b) = Some old \<and> occupying old \<and> room b = room old \<and>
       checkInDate b = checkInDate old \<and> checkOutDate b = checkOutDate old)"
  shows "rewritten bs (bs[indexOfId booking_id (booking_id b) bs := b])"
proof -
  let ?i = "indexOfId booking_id (booking_id b) bs"
  have keep: "?i < length bs \<longrightarrow> booking_id b = booking_id (bs ! ?i)"
    by (simp add: indexOfId_nth)
  have occ: "?i < length bs \<longrightarrow> occupying b \<longrightarrow> occupying (bs ! ?i) \<and> room b = room (bs ! ?i) \<and>
      checkInDate b = checkInDate (bs ! ?i) \<and> checkOutDate b = checkOutDate (bs ! ?i)"
  proof (intro impI)
    assume "occupying b"
    with assms have f: "findBookingById bs (booking_id b) = Some old" and
      old: "occupying old" "room b = room old" "checkInDate b = checkInDate old"
        "checkOutDate b = checkOutDate old"
      by simp_all
    from f have "bs ! ?i = old"
      unfolding findBookingById_def by (simp add: find_indexOfId)
    with old show "occupying (bs ! ?i) \<and> room b = room (bs ! ?i) \<and>
      checkInDate b = checkInDate (bs ! ?i) \<and> checkOutDate b = checkOutDate (bs ! ?i)"
      by simp
  qed
  show ?thesis
    unfolding rewritten_def using keep occ by blast
qed

lemma cancelBooking_effect:
  "(bookings (snd (cancelBooking env req st)) = bookings st
     \<or> rewritten (bookings st) (bookings (snd (cancelBooking env req st))))
   \<and> nextId (snd (cancelBooking env req st)) = nextId st"
proof (cases "find (\<lambda>b. bookingNumber b = c_bookingNumber req
                           \<and> confirmationCode b = c_confirmationCode req) (bookings st)")
  case None
  then show ?thesis by (simp add: cancelBooking_def)
next
  case (Some booking)
  define refund where
    "refund = totalAmount booking - calculateCancellationFee (clock env 1) booking"
  define b' where "b' = booking\<lparr>status := Cancelled,
                                     cancellationReason := c_reason req,
                                     cancellationDate := Some (clock env 2),
                                     cancellationFee := calculateCancellationFee (clock env 1) booking,
                                     refundAmount := refund,
                                     paymentStatus := (if refund > 0 then Refunded else Paid)\<rparr>"
  have nocc: "\<not> occupying b'" by (simp add: b'_def occupying_def)
  have "snd (cancelBooking env req st) = st
     \<or> snd (cancelBooking env req st) = st\<lparr>stripeRequests := stripeRequests st @
                               [RefundCreate (the (stripePaymentIntentId booking))
                                             (Math_round (refund * 100))]\<rparr>
     \<or> snd (cancelBooking env req st) = saveBooking b' st
     \<or> snd (cancelBooking env req st) = saveBooking b' (st\<lparr>stripeRequests := stripeRequests st @
                               [RefundCreate (the (stripePaymentIntentId booking))
                                             (Math_round (refund * 100))]\<rparr>)"
    using Some unfolding cancelBooking_def Let_def refund_def b'_def
    by (simp del: One_nat_def)
  moreover have "rewritten (bookings st)
      ((bookings st)[indexOfId booking_id (booking_id b') (bookings st) := b'])"
    by (rule rewritten_by_save) (simp add: nocc)
  ultimately show ?thesis
    by (elim disjE) simp_all
qed

lemma checkin_effect:
  "(bookings (snd (checkin env i st)) = bookings st
     \<or> rewritten (bookings st) (bookings (snd (checkin env i st))))
   \<and> nextId (snd (checkin env i st)) = nextId st"
proof (cases "findBookingById (bookings st) i")
  case None
  then show ?thesis by (simp add: checkin_def)
next
  case (Some booking)
  then have bid: "booking_id booking = i"
    unfolding findBookingById_def by (auto dest: find_Some_holds)
  define b' where "b' = booking\<lparr>status := CheckedIn, actualCheckInTime := Some (clock env 0)\<rparr>"
  show ?thesis
  proof (cases "adminAuth env \<and> status booking = Confirmed")
    case False
    with Some have "snd (checkin env i st) = st" by (auto simp: checkin_def)
    then show ?thesis by simp
  next
    case True
    have rw: "rewritten (bookings st)
        ((bookings st)[indexOfId booking_id (booking_id b') (bookings st) := b'])"
      by (rule rewritten_by_save[where old = booking])
        (use True Some bid in \<open>simp add: b'_def occupying_def\<close>)
    have "snd (checkin env i st) = saveBooking b' st
       \<or> (\<exists>r. snd (checkin env i st) = saveRoom r (saveBooking b' st))"
      using True Some unfolding checkin_def Let_def b'_def
      by (auto split: option.splits)
    with rw show ?thesis by auto
  qed
qed

lemma checkout_effect:
  "(bookings (snd (checkout env i st)) = bookings st
     \<or> rewritten (bookings st) (bookings (snd (checkout env i st))))
   \<and> nextId (snd (checkout env i st)) = nextId st"
proof (cases "findBookingById (bookings st) i")
  case None
  then show ?thesis by (simp add: checkout_def)
next
  case (Some booking)
  define b' where "b' = booking\<lparr>status := CheckedOut, actualCheckOutTime := Some (clock env 0)\<rparr>"
  have rw: "rewritten (bookings st)
      ((bookings st)[indexOfId booking_id (booking_id b') (bookings st) := b'])"
    by (rule rewritten_by_save) (simp add: b'_def occupying_def)
  have "snd (checkout env i st) = st \<or> snd (checkout env i st) = saveBooking b' st
     \<or> (\<exists>r. snd (checkout env i st) = saveRoom r (saveBooking b' st))"
    using Some unfolding checkout_def Let_def b'_def
    by (auto split: option.splits)
  with rw show ?thesis by auto
qed

lemma insertedAfterCheck_storeInv:
  assumes "insertedAfterCheck req st st'" "storeInv st" "nextId st \<le> nextId st'"
  shows "storeInv st'"
proof -
  from assms(1) obtain rm doc where
    rm: "findRoomById (rooms st) (q_roomId req) = Some rm" and
    av: "isAvailable (bookings st) rm (q_checkInDate req) (q_checkOutDate req)" and
    bs: "bookings st' = bookings st @ [doc]" and
    doc: "room doc = q_roomId req" "checkInDate doc = q_checkInDate req"
      "checkOutDate doc = q_checkOutDate req" "booking_id doc < nextId st'"
    unfolding insertedAfterCheck_def by blast
  from rm have rid: "room_id rm = q_roomId req" by (simp add: findRoomById_Some)
  have "disjointStays (bookings st @ [doc])"
  proof (rule disjointStays_append)
    show "disjointStays (bookings st)" using assms(2) by (simp add: storeInv_def)
  next
    show "\<forall>x \<in> set (bookings st). room x = room doc \<and> occupying x \<longrightarrow>
           {checkInDate x ..< checkOutDate x} \<inter> {checkInDate doc ..< checkOutDate doc} = {}"
      using isAvailable_no_conflict[OF av] doc rid by simp
  qed
  moreover have "\<forall>b \<in> set (bookings st @ [doc]). booking_id b < nextId st'"
    using assms(2,3) doc(4) by (fastforce simp: storeInv_def)
  ultimately show ?thesis by (simp add: storeInv_def bs)
qed

lemma rewritten_storeInv:
  assumes "rewritten (bookings st) (bookings st')" "storeInv st" "nextId st' = nextId st"
  shows "storeInv st'"
  using assms rewritten_disjointStays[OF assms(1)] rewritten_ids[OF assms(1), of "nextId st"]
  by (simp add: storeInv_def)

lemma unchanged_storeInv:
  assumes "bookings st' = bookings st" "storeInv st" "nextId st \<le> nextId st'"
  shows "storeInv st'"
  using assms by (fastforce simp: storeInv_def)

lemma perform_storeInv:
  assumes "storeInv st"
  shows "storeInv (perform op st)"
proof (cases op)
  case (RequestCreation env req)
  with createBookingRequest_effect[of env req st] assms show ?thesis
    by (auto intro: unchanged_storeInv insertedAfterCheck_storeInv)
next
  case (PaidCreation env req)
  from assms have "\<forall>b \<in> set (bookings st). booking_id b < nextId st"
    by (simp add: storeInv_def)
  from createBooking_effect[OF this, of env req] PaidCreation assms show ?thesis
    by (auto intro: unchanged_storeInv insertedAfterCheck_storeInv)
next
  case (Cancellation env req)
  with cancelBooking_effect[of env req st] assms show ?thesis
    by (auto intro: unchanged_storeInv rewritten_storeInv)
next
  case (CheckIn env i)
  with checkin_effect[of env i st] assms show ?thesis
    by (auto intro: unchanged_storeInv rewritten_storeInv)
next
  case (CheckOut env i)
  with checkout_effect[of env i st] assms show ?thesis
    by (auto intro: unchanged_storeInv rewritten_storeInv)
qed

lemma reachable_storeInv: "reachable st \<Longrightarrow> storeInv st"
proof (induction rule: reachable.induct)
  case (initial st)
  then show ?case by (simp add: storeInv_def disjointStays_def)
next
  case (step st op)
  then show ?case by (simp add: perform_storeInv)
qed



text \<open>
  C1. In every state the store reaches from an empty bookings collection by request
  creation, paid creation (which confirms the booking when the payment succeeds),
  cancellation, check-in and check-out, run one after the other, the bookings of one room
  in status Confirmed or Checked In have pairwise disjoint \<open>[checkInDate, checkOutDate)\<close>
  intervals; and a creation route changes the bookings collection only when
  \<open>isAvailable\<close> holds for the requested room and interval on the collection as it is.
\<close>

theorem C1_disjoint_stays:
  assumes "reachable st"
  shows "disjointStays (bookings st)
    \<and> (\<forall>env req. bookings (snd (createBookingRequest env req st)) \<noteq> bookings st \<longrightarrow>
          (\<exists>rm. findRoomById (rooms st) (q_roomId req) = Some rm \<and>
             isAvailable (bookings st) rm (q_checkInDate req) (q_checkOutDate req)))
    \<and> (\<forall>env req. bookings (snd (createBooking env req st)) \<noteq> bookings st \<longrightarrow>
          (\<exists>rm. findRoomById (rooms st) (q_roomId req) = Some rm \<and>
             isAvailable (bookings st) rm (q_checkInDate req) (q_checkOutDate req)))"
proof -
  from assms have inv: "storeInv st" by (rule reachable_storeInv)
  then have ids: "\<forall>b \<in> set (bookings st). booking_id b < nextId st"
    by (simp add: storeInv_def)
  have a: "disjointStays (bookings st)" using inv by (simp add: storeInv_def)
  have b: "\<forall>env req. bookings (snd (createBookingRequest env req st)) \<noteq> bookings st \<longrightarrow>
          (\<exists>rm. findRoomById (rooms st) (q_roomId req) = Some rm \<and>
             isAvailable (bookings st) rm (q_checkInDate req) (q_checkOutDate req))"
    using createBookingRequest_effect[of _ _ st] unfolding insertedAfterCheck_def by blast
  have c: "\<forall>env req. bookings (snd (createBooking env req st)) \<noteq> bookings st \<longrightarrow>
          (\<exists>rm. findRoomById (rooms st) (q_roomId req) = Some rm \<and>
             isAvailable (bookings st) rm (q_checkInDate req) (q_checkOutDate req))"
    using createBooking_effect[OF ids] unfolding insertedAfterCheck_def by blast
  from a b c show ?thesis by blast
qed

section \<open>Concrete runs\<close>

lemma floor_rat_numeral [simp]:
  "\<lfloor>numeral a / numeral b :: rat\<rfloor> = numeral a div numeral b"
  by (metis floor_divide_of_int_eq of_int_numeral)

lemma ceiling_rat_numeral [simp]:
  "\<lceil>numeral a / numeral b :: rat\<rceil> = - (- numeral a div numeral b)"
  using ceiling_divide_eq_div[of "numeral a" "numeral b", where ?'a = rat] by simp

lemma codeLoop_8:
  "codeLoop rnd k 8 code =
     codeLoop rnd (Suc k) 7 (code @ charAt chars \<lfloor>rnd k * of_nat (length chars)\<rfloor>)"
  "codeLoop rnd k 7 code =
     codeLoop rnd (Suc k) 6 (code @ charAt chars \<lfloor>rnd k * of_nat (length chars)\<rfloor>)"
  "codeLoop rnd k 6 code =
     codeLoop rnd (Suc k) 5 (code @ charAt chars \<lfloor>rnd k * of_nat (length chars)\<rfloor>)"
  "codeLoop rnd k 5 code =
     codeLoop rnd (Suc k) 4 (code @ charAt chars \<lfloor>rnd k * of_nat (length chars)\<rfloor>)"
  "codeLoop rnd k 4 code =
     codeLoop rnd (Suc k) 3 (code @ charAt chars \<lfloor>rnd k * of_nat (length chars)\<rfloor>)"
  "codeLoop rnd k 3 code =
     codeLoop rnd (Suc k) 2 (code @ charAt chars \<lfloor>rnd k * of_nat (length chars)\<rfloor>)"
  "codeLoop rnd k 2 code =
     codeLoop rnd (Suc k) 1 (code @ charAt chars \<lfloor>rnd k * of_nat (length chars)\<rfloor>)"
  "codeLoop rnd k 1 code = code @ charAt chars \<lfloor>rnd k * of_nat (length chars)\<rfloor>"
  by (simp_all add: eval_nat_numeral)

lemmas run_defs = createBooking_def createBookingRequest_def findRoomById_def isAvailable_def
  conflictFilter_def findOrCreateGuest_def calculatePricing_def currentPrice_def newBooking_def
  insertBooking_def preValidate_def updateStayStats_def addLoyaltyPoints_def saveGuest_def
  saveBooking_def indexOfId_def Math_round_def childrenOrZero_def requestValid_def
  exampleEnv_def exampleRequest_def exampleRoom_def exampleGuestInfo_def
  string_of_nat.simps charAt_def chars_def Let_def codeLoop_8

lemma example_first_booking:
  "createBooking (exampleEnv (1/2)) (exampleRequest 1894233600000 1894492800000) exampleStore
     = (Inr exampleBooking, exampleStore1)"
  by (simp add: run_defs exampleStore_def exampleStore1_def exampleBooking_def)

lemma example_second_booking:
  "bookings (snd (createBooking (exampleEnv (1/4)) (exampleRequest 1894492800000 1894665600000) exampleStore1))
     = [exampleBooking, exampleBooking\<lparr>booking_id := 2, bookingNumber := ''OVH2029325000'',
          confirmationCode := ''JJJJJJJJ'', checkInDate := 1894492800000, checkOutDate := 1894665600000,
          numberOfNights := 2, subtotal := 200, taxes := 24, totalAmount := 224\<rparr>]"
  by (simp add: run_defs exampleStore1_def exampleBooking_def)

lemma example_second_request:
  "bookings (snd (createBookingRequest (exampleEnv (1/4)) (exampleRequest 1894492800000 1894665600000) exampleStore1))
     \<noteq> bookings exampleStore1"
  by (simp add: run_defs exampleStore1_def exampleBooking_def)

lemma example_collision:
  "createBooking (exampleEnv (1/2)) (exampleRequest 1894492800000 1894665600000) exampleStore1
     = (Inl ServerError, exampleStore1\<lparr>stripeRequests := [PaymentIntentCreate 33600 ''pm_card'', PaymentIntentCreate 22400 ''pm_card'']\<rparr>)"
  by (simp add: run_defs exampleStore1_def exampleBooking_def)

lemma example_overlap_rejected:
  "createBooking (exampleEnv (1/4)) (exampleRequest 1894406400000 1894665600000) exampleStore1
     = (Inl RoomNotAvailable, exampleStore1)"
  by (simp add: run_defs exampleStore1_def exampleBooking_def)


theorem C1_disjoint_stays_witness:
  "reachable exampleStore1 \<and> disjointStays (bookings exampleStore1)
   \<and> bookings (snd (createBookingRequest (exampleEnv (1/4))
         (exampleRequest 1894492800000 1894665600000) exampleStore1)) \<noteq> bookings exampleStore1
   \<and> bookings (snd (createBooking (exampleEnv (1/4))
         (exampleRequest 1894492800000 1894665600000) exampleStore1)) \<noteq> bookings exampleStore1
   \<and> isAvailable (bookings exampleStore1) exampleRoom 1894492800000 1894665600000"
proof -
  have "reachable exampleStore"
    by (rule reachable.initial) (simp add: exampleStore_def)
  then have "reachable (perform (PaidCreation (exampleEnv (1/2))
      (exampleRequest 1894233600000 1894492800000)) exampleStore)"
    by (rule reachable.step)
  then have r: "reachable exampleStore1"
    by (simp add: example_first_booking)
  have c1: "bookings (snd (createBookingRequest (exampleEnv (1/4))
         (exampleRequest 1894492800000 1894665600000) exampleStore1)) \<noteq> bookings exampleStore1"
    by (rule example_second_request)
  have c2: "bookings (snd (createBooking (exampleEnv (1/4))
         (exampleRequest 1894492800000 1894665600000) exampleStore1)) \<noteq> bookings exampleStore1"
    unfolding example_second_booking by (simp add: exampleStore1_def)
  have rm: "findRoomById (rooms exampleStore1)
      (q_roomId (exampleRequest 1894492800000 1894665600000)) = Some exampleRoom"
    by (simp add: findRoomById_def exampleStore1_def exampleRequest_def exampleRoom_def)
  from C1_disjoint_stays[OF r] c2 have
    "\<exists>rm. findRoomById (rooms exampleStore1)
             (q_roomId (exampleRequest 1894492800000 1894665600000)) = Some rm \<and>
          isAvailable (bookings exampleStore1) rm
            (q_checkInDate (exampleRequest 1894492800000 1894665600000))
            (q_checkOutDate (exampleRequest 1894492800000 1894665600000))"
    by blast
  with rm have "isAvailable (bookings exampleStore1) exampleRoom 1894492800000 1894665600000"
    by (simp add: exampleRequest_def)
  with C1_disjoint_stays[OF r] r c1 c2 show ?thesis by blast
qed


section \<open>Creation: pricing and identifiers\<close>


lemma preValidate_blank:
  assumes "bookingNumber b = []" "confirmationCode b = []"
  shows "bookingNumber (preValidate y r b) = ''OVH'' @ string_of_nat y
            @ string_of_nat (nat \<lfloor>100000 + r 0 * 900000\<rfloor>)"
    and "confirmationCode (preValidate y r b) = codeLoop r 1 8 []"
  using assms by (simp_all add: preValidate_def Let_def)

lemma preValidate_nights:
  "numberOfNights b \<noteq> 0 \<Longrightarrow> numberOfNights (preValidate y r b) = numberOfNights b"
  by (simp add: preValidate_def Let_def split: prod.splits)

lemma insertBooking_Inr_fields:
  assumes "insertBooking env b st = Inr (doc, st')"
  shows "roomRate doc = roomRate b" "subtotal doc = subtotal b" "taxes doc = taxes b"
    "totalAmount doc = totalAmount b"
    "numberOfNights b \<noteq> 0 \<Longrightarrow> numberOfNights doc = numberOfNights b"
    "bookingNumber b = [] \<Longrightarrow> confirmationCode b = [] \<Longrightarrow>
       bookingNumber doc = generatedNumber env \<and> confirmationCode doc = generatedCode env"
    "\<forall>x \<in> set (bookings st). bookingNumber x \<noteq> bookingNumber doc
        \<and> confirmationCode x \<noteq> confirmationCode doc"
proof -
  from assms have doc: "doc = (preValidate (fullYear env) (random env) b)\<lparr>booking_id := nextId st\<rparr>"
    and free: "\<not> (\<exists>x \<in> set (bookings st). bookingNumber x = bookingNumber doc
                                    \<or> confirmationCode x = confirmationCode doc)"
    by (auto simp: insertBooking_def Let_def split: if_splits)
  show "roomRate doc = roomRate b" "subtotal doc = subtotal b" "taxes doc = taxes b"
    "totalAmount doc = totalAmount b"
    by (simp_all add: doc)
  show "numberOfNights b \<noteq> 0 \<Longrightarrow> numberOfNights doc = numberOfNights b"
    by (simp add: doc preValidate_nights)
  show "bookingNumber b = [] \<Longrightarrow> confirmationCode b = [] \<Longrightarrow>
       bookingNumber doc = generatedNumber env \<and> confirmationCode doc = generatedCode env"
    by (simp add: doc preValidate_blank generatedNumber_def generatedCode_def)
  from free show "\<forall>x \<in> set (bookings st). bookingNumber x \<noteq> bookingNumber doc
        \<and> confirmationCode x \<noteq> confirmationCode doc"
    by blast
qed

lemma nights_positive:
  assumes "ci < co"
  shows "1 \<le> \<lceil>(of_int (co - ci) :: rat) / (1000 * 60 * 60 * 24)\<rceil>"
proof -
  from assms have "0 < (of_int (co - ci) :: rat) / (1000 * 60 * 60 * 24)" by simp
  then have "0 < \<lceil>(of_int (co - ci) :: rat) / (1000 * 60 * 60 * 24)\<rceil>" by simp
  then show ?thesis by simp
qed

lemma inserted_createdFrom:
  assumes rm: "findRoomById (rooms st) (q_roomId req) = Some rm"
    and lt: "q_checkInDate req < q_checkOutDate req"
    and bs: "bookings s = bookings st"
    and ins: "insertBooking env
       (newBooking g req (calculatePricing (clock env 1) rm (q_checkInDate req) (q_checkOutDate req))
          ps pm intent stat) s = Inr (doc, s')"
  shows "createdFrom env req st rm doc"
    and "createdFrom env req st rm (doc\<lparr>emailConfirmationSent := True\<rparr>)"
proof -
  let ?pr = "calculatePricing (clock env 1) rm (q_checkInDate req) (q_checkOutDate req)"
  let ?b = "newBooking g req ?pr ps pm intent stat"
  note f = insertBooking_Inr_fields[OF ins]
  have "numberOfNights ?b =
      \<lceil>(of_int (q_checkOutDate req - q_checkInDate req) :: rat) / (1000 * 60 * 60 * 24)\<rceil>"
    by (simp add: newBooking_def calculatePricing_def Let_def)
  with nights_positive[OF lt] have n: "numberOfNights ?b \<noteq> 0" by linarith
  have blank: "bookingNumber ?b = []" "confirmationCode ?b = []"
    by (simp_all add: newBooking_def)
  have fields: "roomRate ?b = p_roomRate ?pr" "numberOfNights ?b = p_numberOfNights ?pr"
    "subtotal ?b = p_subtotal ?pr" "taxes ?b = p_taxes ?pr" "totalAmount ?b = p_totalAmount ?pr"
    by (simp_all add: newBooking_def)
  from f(6)[OF blank] have ids: "bookingNumber doc = generatedNumber env"
    "confirmationCode doc = generatedCode env" by simp_all
  show "createdFrom env req st rm doc"
    unfolding createdFrom_def Let_def
    using rm lt f(1-4) f(5)[OF n] fields ids f(7) bs by simp
  then show "createdFrom env req st rm (doc\<lparr>emailConfirmationSent := True\<rparr>)"
    unfolding createdFrom_def Let_def by simp
qed

lemma createBookingRequest_Inr:
  assumes "createBookingRequest env req st = (Inr doc, st')"
  shows "\<exists>rm. createdFrom env req st rm doc"
proof (cases "findRoomById (rooms st) (q_roomId req)")
  case None
  with assms show ?thesis by (simp add: createBookingRequest_def Let_def split: if_splits)
next
  case (Some rm)
  obtain g st1 where g: "findOrCreateGuest (q_guestInfo req) st = (g, st1)"
    by (cases "findOrCreateGuest (q_guestInfo req) st")
  note f = findOrCreateGuest_fields[OF g]
  let ?b = "newBooking g req (calculatePricing (clock env 1) rm (q_checkInDate req)
              (q_checkOutDate req)) PaymentPending Cash None Pending"
  from assms Some g have lt: "q_checkInDate req < q_checkOutDate req"
    by (simp add: createBookingRequest_def Let_def split: if_splits)
  from assms Some g have "insertBooking env ?b st1 = Inr (doc, st')"
    by (auto simp add: createBookingRequest_def Let_def simp del: One_nat_def
          split: if_splits sum.splits prod.splits)
  from inserted_createdFrom(1)[OF Some lt f(1) this] show ?thesis ..
qed


lemma createBooking_Inr:
  assumes "createBooking env req st = (Inr doc, st')"
  shows "\<exists>rm. createdFrom env req st rm doc"
proof (cases "findRoomById (rooms st) (q_roomId req)")
  case None
  with assms show ?thesis by (simp add: createBooking_def Let_def split: if_splits)
next
  case (Some rm)
  obtain g st1 where g: "findOrCreateGuest (q_guestInfo req) st = (g, st1)"
    by (cases "findOrCreateGuest (q_guestInfo req) st")
  note f = findOrCreateGuest_fields[OF g]
  let ?pr = "calculatePricing (clock env 1) rm (q_checkInDate req) (q_checkOutDate req)"
  let ?st2 = "st1\<lparr>stripeRequests := stripeRequests st1 @
      [PaymentIntentCreate (Math_round (p_totalAmount ?pr * 100)) (q_paymentMethodId req)]\<rparr>"
  have st2: "bookings ?st2 = bookings st" using f by simp
  from assms Some have lt: "q_checkInDate req < q_checkOutDate req"
    by (simp add: createBooking_def Let_def split: if_splits)
  from assms Some g obtain pid ps where out: "intentOutcome env = PaymentIntent pid ps"
    by (cases "intentOutcome env")
      (simp_all add: createBooking_def Let_def split: if_splits)
  let ?b = "newBooking g req ?pr (if ps = ''succeeded'' then Paid else PaymentPending)
      CreditCard (Some pid) (if ps = ''succeeded'' then Confirmed else Pending)"
  from assms Some g out have
    "\<exists>d st3. insertBooking env ?b ?st2 = Inr (d, st3) \<and>
        (doc = d \<or> doc = d\<lparr>emailConfirmationSent := True\<rparr>)"
    unfolding createBooking_def Let_def
    by (auto simp del: One_nat_def split: if_splits sum.splits prod.splits)
  then obtain d st3 where
    ins: "insertBooking env ?b ?st2 = Inr (d, st3)" and
    doc: "doc = d \<or> doc = d\<lparr>emailConfirmationSent := True\<rparr>"
    by blast
  note c = inserted_createdFrom[OF Some lt st2 ins]
  from doc c show ?thesis by auto
qed


lemma createBookingRequest_Inl:
  assumes "fst (createBookingRequest env req st) = Inl e"
  shows "bookings (snd (createBookingRequest env req st)) = bookings st"
proof (cases "findRoomById (rooms st) (q_roomId req)")
  case None
  then show ?thesis by (simp add: createBookingRequest_def Let_def)
next
  case (Some rm)
  obtain g st1 where g: "findOrCreateGuest (q_guestInfo req) st = (g, st1)"
    by (cases "findOrCreateGuest (q_guestInfo req) st")
  note f = findOrCreateGuest_fields[OF g]
  from assms Some g f(1) show ?thesis
    unfolding createBookingRequest_def Let_def
    by (auto simp del: One_nat_def split: if_splits sum.splits prod.splits)
qed

lemma createBooking_Inl:
  assumes "fst (createBooking env req st) = Inl e"
  shows "bookings (snd (createBooking env req st)) = bookings st"
proof (cases "findRoomById (rooms st) (q_roomId req)")
  case None
  then show ?thesis by (simp add: createBooking_def Let_def)
next
  case (Some rm)
  obtain g st1 where g: "findOrCreateGuest (q_guestInfo req) st = (g, st1)"
    by (cases "findOrCreateGuest (q_guestInfo req) st")
  note f = findOrCreateGuest_fields[OF g]
  from assms Some g f(1) show ?thesis
    unfolding createBooking_def Let_def
    by (auto simp del: One_nat_def
          split: if_splits sum.splits prod.splits intent_outcome.splits)
qed





text \<open>
  C6, as stated, fails: the same room snapshot and the same dates give a total of 672 when
  the price is evaluated on 2029-12-01, inside the seasonal override, and 336 when it is
  evaluated on 2029-12-15.
\<close>

theorem C6_pricing_depends_on_clock:
  "totalAmount (projr (fst (createBookingRequest (exampleEnvAt 1890777600000 True)
       (exampleRequest 1894233600000 1894492800000) seasonalStore))) = 672
   \<and> totalAmount (projr (fst (createBookingRequest (exampleEnvAt 1892000000000 True)
       (exampleRequest 1894233600000 1894492800000) seasonalStore))) = 336"
  by (simp add: run_defs exampleEnvAt_def seasonalStore_def seasonalRoom_def exampleStore_def)

text \<open>
  C6, amended. Two successful creations, by either route, in any two stores and for any
  guests, occupancies, payment outcomes and random values, store the same \<open>roomRate\<close>,
  \<open>numberOfNights\<close>, \<open>subtotal\<close>, \<open>taxes\<close> and \<open>totalAmount\<close> whenever the rooms have the
  same base price and seasonal overrides, the dates are the same, and \<open>currentPrice\<close>
  reads the same instant from the clock, or the room has no seasonal override.
\<close>

theorem C6_pricing_determinism:
  assumes run1: "createBookingRequest env1 req1 st1 = (Inr d1, st1')
               \<or> createBooking env1 req1 st1 = (Inr d1, st1')"
    and run2: "createBookingRequest env2 req2 st2 = (Inr d2, st2')
               \<or> createBooking env2 req2 st2 = (Inr d2, st2')"
    and rm1: "findRoomById (rooms st1) (q_roomId req1) = Some rm1"
    and rm2: "findRoomById (rooms st2) (q_roomId req2) = Some rm2"
    and snapshot: "basePrice rm1 = basePrice rm2" "seasonalPricing rm1 = seasonalPricing rm2"
    and dates: "q_checkInDate req1 = q_checkInDate req2" "q_checkOutDate req1 = q_checkOutDate req2"
    and time: "clock env1 1 = clock env2 1 \<or> seasonalPricing rm1 = []"
  shows "roomRate d1 = roomRate d2 \<and> numberOfNights d1 = numberOfNights d2 \<and>
         subtotal d1 = subtotal d2 \<and> taxes d1 = taxes d2 \<and> totalAmount d1 = totalAmount d2"
proof -
  from run1 obtain r1 where c1: "createdFrom env1 req1 st1 r1 d1"
    using createBookingRequest_Inr createBooking_Inr by blast
  from run2 obtain r2 where c2: "createdFrom env2 req2 st2 r2 d2"
    using createBookingRequest_Inr createBooking_Inr by blast
  from c1 rm1 have r1: "r1 = rm1" by (simp add: createdFrom_def)
  from c2 rm2 have r2: "r2 = rm2" by (simp add: createdFrom_def)
  have price: "currentPrice (clock env1 1) rm1 = currentPrice (clock env2 1) rm2"
    using time snapshot by (auto simp: currentPrice_def split: option.splits)
  from c1 c2 show ?thesis
    unfolding createdFrom_def calculatePricing_def Let_def r1 r2
    using price dates by simp
qed

theorem C6_pricing_determinism_witness:
  "roomRate exampleBooking = 100 \<and> totalAmount exampleBooking = 336
   \<and> roomRate (projr (fst (createBookingRequest (exampleEnvAt 1892000000000 True)
         (exampleRequest 1894233600000 1894492800000) exampleStore))) = 100
   \<and> totalAmount (projr (fst (createBookingRequest (exampleEnvAt 1892000000000 True)
         (exampleRequest 1894233600000 1894492800000) exampleStore))) = 336"
proof -
  let ?env2 = "exampleEnvAt 1892000000000 True"
  let ?req = "exampleRequest 1894233600000 1894492800000"
  obtain d2 s2 where run2: "createBookingRequest ?env2 ?req exampleStore = (Inr d2, s2)"
    by (simp add: run_defs exampleEnvAt_def exampleStore_def)
  have rm: "findRoomById (rooms exampleStore) (q_roomId ?req) = Some exampleRoom"
    by (simp add: findRoomById_def exampleStore_def exampleRequest_def exampleRoom_def)
  have nil: "clock (exampleEnv (1/2)) 1 = clock ?env2 1 \<or> seasonalPricing exampleRoom = []"
    by (simp add: exampleRoom_def)
  from C6_pricing_determinism[OF disjI2[OF example_first_booking] disjI1[OF run2] rm rm
        refl refl refl refl nil]
  have "roomRate exampleBooking = roomRate d2 \<and> totalAmount exampleBooking = totalAmount d2"
    by simp
  moreover have "roomRate exampleBooking = 100 \<and> totalAmount exampleBooking = 336"
    by (simp add: exampleBooking_def)
  ultimately show ?thesis by (simp add: run2)
qed

text \<open>
  C8, as stated, fails: with the random source repeating its values the hook generates the
  booking number and the confirmation code of the stored booking again; the insert is
  rejected with a duplicate-key error, the route answers with a server error and nothing
  is persisted.  No second value is generated.
\<close>

theorem C8_duplicate_key:
  "insertBooking (exampleEnv (1/2))
       (exampleBooking\<lparr>bookingNumber := [], confirmationCode := []\<rparr>) exampleStore1
     = Inl DuplicateKey
   \<and> fst (createBooking (exampleEnv (1/2)) (exampleRequest 1894492800000 1894665600000)
            exampleStore1) = Inl ServerError
   \<and> bookings (snd (createBooking (exampleEnv (1/2))
         (exampleRequest 1894492800000 1894665600000) exampleStore1)) = bookings exampleStore1"
  by (simp add: example_collision)
    (simp add: run_defs exampleStore1_def exampleBooking_def)

text \<open>
  C8, amended. The booking number and the confirmation code of a created booking are
  those the hook computes from the year and the random source alone, once; a creation
  succeeds only when no stored booking carries either of them, and when one does, both
  routes answer with an error and leave the bookings collection as it was.
\<close>

theorem C8_identifiers:
  "(createBookingRequest env req st = (Inr doc, st') \<or> createBooking env req st = (Inr doc, st')
      \<longrightarrow> bookingNumber doc = generatedNumber env \<and> confirmationCode doc = generatedCode env \<and>
          (\<forall>x \<in> set (bookings st). bookingNumber x \<noteq> bookingNumber doc
              \<and> confirmationCode x \<noteq> confirmationCode doc))
   \<and> ((\<exists>x \<in> set (bookings st). bookingNumber x = generatedNumber env
                                 \<or> confirmationCode x = generatedCode env)
      \<longrightarrow> isl (fst (createBookingRequest env req st))
          \<and> bookings (snd (createBookingRequest env req st)) = bookings st
          \<and> isl (fst (createBooking env req st))
          \<and> bookings (snd (createBooking env req st)) = bookings st)"
proof (intro conjI impI)
  assume "createBookingRequest env req st = (Inr doc, st')
        \<or> createBooking env req st = (Inr doc, st')"
  then obtain rm where c: "createdFrom env req st rm doc"
    using createBookingRequest_Inr createBooking_Inr by blast
  then show "bookingNumber doc = generatedNumber env" "confirmationCode doc = generatedCode env"
    "\<forall>x \<in> set (bookings st). bookingNumber x \<noteq> bookingNumber doc
              \<and> confirmationCode x \<noteq> confirmationCode doc"
    by (simp_all add: createdFrom_def)
next
  assume col: "\<exists>x \<in> set (bookings st). bookingNumber x = generatedNumber env
                                 \<or> confirmationCode x = generatedCode env"
  have no: "\<And>rm d. \<not> createdFrom env req st rm d"
    using col unfolding createdFrom_def by blast
  show a: "isl (fst (createBookingRequest env req st))"
  proof (cases "createBookingRequest env req st")
    case (Pair res s)
    with createBookingRequest_Inr[of env req st] no show ?thesis by (cases res) auto
  qed
  show b: "isl (fst (createBooking env req st))"
  proof (cases "createBooking env req st")
    case (Pair res s)
    with createBooking_Inr[of env req st] no show ?thesis by (cases res) auto
  qed
  from a show "bookings (snd (createBookingRequest env req st)) = bookings st"
    by (cases "fst (createBookingRequest env req st)") (auto dest: createBookingRequest_Inl)
  from b show "bookings (snd (createBooking env req st)) = bookings st"
    by (cases "fst (createBooking env req st)") (auto dest: createBooking_Inl)
qed

theorem C8_identifiers_witness:
  "bookingNumber exampleBooking = generatedNumber (exampleEnv (1/2))
   \<and> confirmationCode exampleBooking = generatedCode (exampleEnv (1/2))
   \<and> isl (fst (createBookingRequest (exampleEnv (1/2))
              (exampleRequest 1894492800000 1894665600000) exampleStore1))
   \<and> bookings (snd (createBooking (exampleEnv (1/2))
              (exampleRequest 1894492800000 1894665600000) exampleStore1))
        = bookings exampleStore1"
proof -
  note t = C8_identifiers[of "exampleEnv (1/2)" "exampleRequest 1894233600000 1894492800000"
      exampleStore exampleBooking exampleStore1]
  from t example_first_booking have g: "bookingNumber exampleBooking = generatedNumber (exampleEnv (1/2))"
    "confirmationCode exampleBooking = generatedCode (exampleEnv (1/2))"
    by simp_all
  then have "\<exists>x \<in> set (bookings exampleStore1).
      bookingNumber x = generatedNumber (exampleEnv (1/2))
      \<or> confirmationCode x = generatedCode (exampleEnv (1/2))"
    by (simp add: exampleStore1_def)
  with C8_identifiers[of "exampleEnv (1/2)" "exampleRequest 1894492800000 1894665600000"
      exampleStore1] g
  show ?thesis by blast
qed



section \<open>Cancellation and lifecycle guards\<close>


lemma indexOfId_member: "x \<in> set xs \<Longrightarrow> indexOfId idf (idf x) xs < length xs"
  unfolding indexOfId_def
  by (induction xs) auto

lemma saveBooking_stored:
  assumes "b \<in> set (bookings st)" "booking_id b' = booking_id b"
  shows "b' \<in> set (bookings (saveBooking b' st))"
proof -
  have "indexOfId booking_id (booking_id b') (bookings st) < length (bookings st)"
    using indexOfId_member[OF assms(1), of booking_id] assms(2) by simp
  then show ?thesis by (simp add: set_update_memI)
qed

lemma cancelBooking_Inr:
  assumes "cancelBooking env req st = (Inr b', st')"
  shows "\<exists>booking. find (\<lambda>b. bookingNumber b = c_bookingNumber req
                           \<and> confirmationCode b = c_confirmationCode req) (bookings st) = Some booking
     \<and> canBeCancelled (clock env 0) booking
     \<and> b' = cancelledDoc env req booking
     \<and> (if truthy (stripePaymentIntentId booking) \<and> refundAmount b' > 0
         then refundSucceeds env \<and>
              st' = saveBooking b' (st\<lparr>stripeRequests := stripeRequests st @
                      [RefundCreate (the (stripePaymentIntentId booking))
                                    (Math_round (refundAmount b' * 100))]\<rparr>)
         else st' = saveBooking b' st)"
proof (cases "find (\<lambda>b. bookingNumber b = c_bookingNumber req
                           \<and> confirmationCode b = c_confirmationCode req) (bookings st)")
  case None
  with assms show ?thesis by (simp add: cancelBooking_def split: if_splits)
next
  case (Some booking)
  with assms show ?thesis
    unfolding cancelBooking_def cancelledDoc_def Let_def
    by (auto simp del: One_nat_def split: if_splits)
qed


lemmas cancel_defs = cancelBooking_def canBeCancelled_def calculateCancellationFee_def
  hoursUntilCheckIn_def truthy_def saveBooking_def indexOfId_def Math_round_def Let_def
  exampleEnvAt_def exampleEnv_def exampleCancel_def exampleStore1_def exampleBooking_def

lemma example_cancel_30h:
  "cancelBooking (exampleEnvAt 1894125600000 True) exampleCancel exampleStore1 =
     (Inr (exampleBooking\<lparr>status := Cancelled, cancellationDate := Some 1894125600000,
             cancellationFee := 84, refundAmount := 252, paymentStatus := Refunded\<rparr>),
      exampleStore1\<lparr>bookings := [exampleBooking\<lparr>status := Cancelled,
             cancellationDate := Some 1894125600000,
             cancellationFee := 84, refundAmount := 252, paymentStatus := Refunded\<rparr>],
        stripeRequests := [PaymentIntentCreate 33600 ''pm_card'', RefundCreate ''pi_1'' 25200]\<rparr>)"
  by (simp add: cancel_defs)

lemma example_cancel_unpaid:
  "cancelBooking (exampleEnvAt 1894125600000 False) exampleCancel unpaidStore =
     (Inr (unpaidBooking\<lparr>status := Cancelled, cancellationDate := Some 1894125600000,
             cancellationFee := 84, refundAmount := 252, paymentStatus := Refunded\<rparr>),
      unpaidStore\<lparr>bookings := [unpaidBooking\<lparr>status := Cancelled,
             cancellationDate := Some 1894125600000,
             cancellationFee := 84, refundAmount := 252, paymentStatus := Refunded\<rparr>]\<rparr>)"
  by (simp add: cancel_defs unpaidStore_def unpaidBooking_def)

lemma cancelBooking_Inr_stored:
  assumes "cancelBooking env req st = (Inr b', st')"
  shows "b' \<in> set (bookings st')"
proof -
  from cancelBooking_Inr[OF assms] obtain booking where
    f: "find (\<lambda>b. bookingNumber b = c_bookingNumber req
                 \<and> confirmationCode b = c_confirmationCode req) (bookings st) = Some booking"
    and b': "b' = cancelledDoc env req booking"
    and st': "st' = saveBooking b' st
        \<or> st' = saveBooking b' (st\<lparr>stripeRequests := stripeRequests st @
                      [RefundCreate (the (stripePaymentIntentId booking))
                                    (Math_round (refundAmount b' * 100))]\<rparr>)"
    by (auto split: if_splits)
  from find_Some_holds[OF f] have mem: "booking \<in> set (bookings st)" by simp
  have bid: "booking_id b' = booking_id booking"
    by (simp add: b' cancelledDoc_def Let_def)
  show ?thesis
    using st' saveBooking_stored[OF _ bid, of st] mem
      saveBooking_stored[OF _ bid, of "st\<lparr>stripeRequests := stripeRequests st @
                      [RefundCreate (the (stripePaymentIntentId booking))
                                    (Math_round (refundAmount b' * 100))]\<rparr>"]
    by auto
qed

text \<open>
  C4. When the cancellation route succeeds, the booking it found had status Confirmed and
  more than 24 hours remained before its check-in when \<open>canBeCancelled\<close> read the clock;
  the fee recorded is 0, 25% or 50% of the total according to whether more than 48, more
  than 24 and at most 48, or at most 24 hours remained when \<open>calculateCancellationFee\<close>
  read the clock; the recorded refund is the total minus that fee, and the cancelled
  booking is in the store.
\<close>

theorem C4_cancellation:
  assumes "cancelBooking env req st = (Inr b', st')"
  shows "\<exists>booking \<in> set (bookings st).
     bookingNumber booking = c_bookingNumber req \<and>
     confirmationCode booking = c_confirmationCode req \<and>
     status booking = Confirmed \<and>
     (of_int (checkInDate booking - clock env 0) :: rat) / (1000 * 60 * 60) > 24 \<and>
     ((of_int (checkInDate booking - clock env 1) :: rat) / (1000 * 60 * 60) > 48 \<longrightarrow>
        cancellationFee b' = 0) \<and>
     (24 < (of_int (checkInDate booking - clock env 1) :: rat) / (1000 * 60 * 60) \<and>
      (of_int (checkInDate booking - clock env 1) :: rat) / (1000 * 60 * 60) \<le> 48 \<longrightarrow>
        cancellationFee b' = totalAmount booking * (25 / 100)) \<and>
     ((of_int (checkInDate booking - clock env 1) :: rat) / (1000 * 60 * 60) \<le> 24 \<longrightarrow>
        cancellationFee b' = totalAmount booking * (50 / 100)) \<and>
     refundAmount b' = totalAmount booking - cancellationFee b' \<and>
     status b' = Cancelled \<and> b' \<in> set (bookings st')"
proof -
  from cancelBooking_Inr[OF assms] obtain booking where
    f: "find (\<lambda>b. bookingNumber b = c_bookingNumber req
                 \<and> confirmationCode b = c_confirmationCode req) (bookings st) = Some booking"
    and can: "canBeCancelled (clock env 0) booking"
    and b': "b' = cancelledDoc env req booking"
    and st': "st' = saveBooking b' st
        \<or> st' = saveBooking b' (st\<lparr>stripeRequests := stripeRequests st @
                      [RefundCreate (the (stripePaymentIntentId booking))
                                    (Math_round (refundAmount b' * 100))]\<rparr>)"
    by (auto split: if_splits)
  from find_Some_holds[OF f] have mem: "booking \<in> set (bookings st)"
    and key: "bookingNumber booking = c_bookingNumber req"
      "confirmationCode booking = c_confirmationCode req"
    by simp_all
  have stored: "b' \<in> set (bookings st')"
    by (rule cancelBooking_Inr_stored[OF assms])
  from can have g: "status booking = Confirmed"
    "(of_int (checkInDate booking - clock env 0) :: rat) / (1000 * 60 * 60) > 24"
    by (simp_all add: canBeCancelled_def hoursUntilCheckIn_def)
  have fee: "cancellationFee b' = calculateCancellationFee (clock env 1) booking"
    and refund: "refundAmount b' = totalAmount booking - cancellationFee b'"
    and cancelled: "status b' = Cancelled"
    by (simp_all add: b' cancelledDoc_def Let_def)
  have tiers:
    "((of_int (checkInDate booking - clock env 1) :: rat) / (1000 * 60 * 60) > 48 \<longrightarrow>
        cancellationFee b' = 0) \<and>
     (24 < (of_int (checkInDate booking - clock env 1) :: rat) / (1000 * 60 * 60) \<and>
      (of_int (checkInDate booking - clock env 1) :: rat) / (1000 * 60 * 60) \<le> 48 \<longrightarrow>
        cancellationFee b' = totalAmount booking * (25 / 100)) \<and>
     ((of_int (checkInDate booking - clock env 1) :: rat) / (1000 * 60 * 60) \<le> 24 \<longrightarrow>
        cancellationFee b' = totalAmount booking * (50 / 100))"
    unfolding fee calculateCancellationFee_def hoursUntilCheckIn_def by auto
  from mem key g tiers refund cancelled stored show ?thesis by blast
qed

theorem C4_cancellation_witness:
  "fst (cancelBooking (exampleEnvAt 1894125600000 True) exampleCancel exampleStore1)
     = Inr (exampleBooking\<lparr>status := Cancelled, cancellationDate := Some 1894125600000,
             cancellationFee := 84, refundAmount := 252, paymentStatus := Refunded\<rparr>)
   \<and> status exampleBooking = Confirmed
   \<and> (of_int (checkInDate exampleBooking - 1894125600000) :: rat) / (1000 * 60 * 60) = 30
   \<and> totalAmount exampleBooking * (25 / 100) = 84"
proof -
  from C4_cancellation[OF example_cancel_30h] obtain booking where
    b: "booking \<in> set (bookings exampleStore1)" and c: "status booking = Confirmed"
    and h: "24 < (of_int (checkInDate booking - clock (exampleEnvAt 1894125600000 True) 1) :: rat)
                   / (1000 * 60 * 60) \<and>
      (of_int (checkInDate booking - clock (exampleEnvAt 1894125600000 True) 1) :: rat)
                   / (1000 * 60 * 60) \<le> 48 \<longrightarrow>
        cancellationFee (exampleBooking\<lparr>status := Cancelled,
             cancellationDate := Some 1894125600000,
             cancellationFee := 84, refundAmount := 252, paymentStatus := Refunded\<rparr>)
          = totalAmount booking * (25 / 100)"
    by blast
  from b have e: "booking = exampleBooking" by (simp add: exampleStore1_def)
  have hrs: "(of_int (checkInDate exampleBooking - 1894125600000) :: rat) / (1000 * 60 * 60) = 30"
    by (simp add: exampleBooking_def)
  from h e hrs have "totalAmount exampleBooking * (25 / 100) = 84"
    by (simp add: exampleEnvAt_def)
  with c e hrs example_cancel_30h show ?thesis by simp
qed


text \<open>
  C5. A check-in of a booking that is not Confirmed, a check-out of a booking that is not
  Checked In, and a cancellation whose eligibility guard fails answer with an error and
  leave the whole store as it was; when the refund call fails during a cancellation the
  answer is the refund error and the bookings, the rooms and the guests are as they were.
\<close>

theorem C5_guards:
  "(findBookingById (bookings st) i = Some b1 \<and> status b1 \<noteq> Confirmed \<longrightarrow>
      isl (fst (checkin env i st)) \<and> snd (checkin env i st) = st)
   \<and> (findBookingById (bookings st) i = Some b2 \<and> status b2 \<noteq> CheckedIn \<longrightarrow>
      isl (fst (checkout env i st)) \<and> snd (checkout env i st) = st)
   \<and> (find (\<lambda>b. bookingNumber b = c_bookingNumber req
                 \<and> confirmationCode b = c_confirmationCode req) (bookings st) = Some b3
       \<and> \<not> canBeCancelled (clock env 0) b3 \<longrightarrow>
      isl (fst (cancelBooking env req st)) \<and> snd (cancelBooking env req st) = st)
   \<and> (find (\<lambda>b. bookingNumber b = c_bookingNumber req
                 \<and> confirmationCode b = c_confirmationCode req) (bookings st) = Some b4
       \<and> c_confirmationCode req \<noteq> []
       \<and> (\<forall>r. c_reason req = Some r \<longrightarrow> length r \<le> 500)
       \<and> canBeCancelled (clock env 0) b4
       \<and> truthy (stripePaymentIntentId b4)
       \<and> totalAmount b4 - calculateCancellationFee (clock env 1) b4 > 0
       \<and> \<not> refundSucceeds env \<longrightarrow>
      fst (cancelBooking env req st) = Inl RefundProcessingFailed
      \<and> bookings (snd (cancelBooking env req st)) = bookings st
      \<and> rooms (snd (cancelBooking env req st)) = rooms st
      \<and> guests (snd (cancelBooking env req st)) = guests st)"
proof (intro conjI impI)
  assume "findBookingById (bookings st) i = Some b1 \<and> status b1 \<noteq> Confirmed"
  then show "isl (fst (checkin env i st))" "snd (checkin env i st) = st"
    by (simp_all add: checkin_def)
next
  assume "findBookingById (bookings st) i = Some b2 \<and> status b2 \<noteq> CheckedIn"
  then show "isl (fst (checkout env i st))" "snd (checkout env i st) = st"
    by (simp_all add: checkout_def)
next
  assume "find (\<lambda>b. bookingNumber b = c_bookingNumber req
                 \<and> confirmationCode b = c_confirmationCode req) (bookings st) = Some b3
       \<and> \<not> canBeCancelled (clock env 0) b3"
  then show "isl (fst (cancelBooking env req st))" "snd (cancelBooking env req st) = st"
    by (simp_all add: cancelBooking_def)
next
  assume h: "find (\<lambda>b. bookingNumber b = c_bookingNumber req
                 \<and> confirmationCode b = c_confirmationCode req) (bookings st) = Some b4
       \<and> c_confirmationCode req \<noteq> []
       \<and> (\<forall>r. c_reason req = Some r \<longrightarrow> length r \<le> 500)
       \<and> canBeCancelled (clock env 0) b4
       \<and> truthy (stripePaymentIntentId b4)
       \<and> totalAmount b4 - calculateCancellationFee (clock env 1) b4 > 0
       \<and> \<not> refundSucceeds env"
  then have v: "\<not> (c_confirmationCode req = []
         \<or> (case c_reason req of None \<Rightarrow> False | Some r \<Rightarrow> length r > 500))"
    by (auto split: option.splits)
  from h v have r: "cancelBooking env req st =
      (Inl RefundProcessingFailed,
       st\<lparr>stripeRequests := stripeRequests st @
             [RefundCreate (the (stripePaymentIntentId b4))
                (Math_round ((totalAmount b4 - calculateCancellationFee (clock env 1) b4) * 100))]\<rparr>)"
    unfolding cancelBooking_def Let_def by (simp del: One_nat_def)
  show "fst (cancelBooking env req st) = Inl RefundProcessingFailed"
    "bookings (snd (cancelBooking env req st)) = bookings st"
    "rooms (snd (cancelBooking env req st)) = rooms st"
    "guests (snd (cancelBooking env req st)) = guests st"
    by (simp_all add: r)
qed

theorem C5_guards_witness:
  "isl (fst (checkin (exampleEnv (1/2)) 1 pendingStore))
   \<and> snd (checkin (exampleEnv (1/2)) 1 pendingStore) = pendingStore
   \<and> isl (fst (checkout (exampleEnv (1/2)) 1 exampleStore1))
   \<and> snd (checkout (exampleEnv (1/2)) 1 exampleStore1) = exampleStore1
   \<and> isl (fst (cancelBooking (exampleEnvAt 1894197600000 True) exampleCancel exampleStore1))
   \<and> snd (cancelBooking (exampleEnvAt 1894197600000 True) exampleCancel exampleStore1)
        = exampleStore1
   \<and> fst (cancelBooking (exampleEnvAt 1894125600000 False) exampleCancel exampleStore1)
        = Inl RefundProcessingFailed
   \<and> bookings (snd (cancelBooking (exampleEnvAt 1894125600000 False) exampleCancel exampleStore1))
        = bookings exampleStore1"
proof -
  let ?pending = pendingStore
  have f1: "findBookingById (bookings ?pending) 1 = Some (exampleBooking\<lparr>status := Pending\<rparr>)
      \<and> status (exampleBooking\<lparr>status := Pending\<rparr>) \<noteq> Confirmed"
    by (simp add: findBookingById_def pendingStore_def exampleBooking_def)
  have f2: "findBookingById (bookings exampleStore1) 1 = Some exampleBooking
      \<and> status exampleBooking \<noteq> CheckedIn"
    by (simp add: findBookingById_def exampleStore1_def exampleBooking_def)
  have f: "find (\<lambda>b. bookingNumber b = c_bookingNumber exampleCancel
                 \<and> confirmationCode b = c_confirmationCode exampleCancel)
              (bookings exampleStore1) = Some exampleBooking"
    by (simp add: exampleStore1_def exampleBooking_def exampleCancel_def)
  have f3: "\<not> canBeCancelled (clock (exampleEnvAt 1894197600000 True) 0) exampleBooking"
    by (simp add: canBeCancelled_def hoursUntilCheckIn_def exampleEnvAt_def exampleBooking_def)
  have f4: "c_confirmationCode exampleCancel \<noteq> []
       \<and> (\<forall>r. c_reason exampleCancel = Some r \<longrightarrow> length r \<le> 500)
       \<and> canBeCancelled (clock (exampleEnvAt 1894125600000 False) 0) exampleBooking
       \<and> truthy (stripePaymentIntentId exampleBooking)
       \<and> totalAmount exampleBooking
           - calculateCancellationFee (clock (exampleEnvAt 1894125600000 False) 1) exampleBooking > 0
       \<and> \<not> refundSucceeds (exampleEnvAt 1894125600000 False)"
    by (simp add: canBeCancelled_def hoursUntilCheckIn_def calculateCancellationFee_def
          truthy_def exampleEnvAt_def exampleBooking_def exampleCancel_def)
  from C5_guards[of ?pending 1 "exampleBooking\<lparr>status := Pending\<rparr>" "exampleEnv (1/2)"] f1
  have a: "isl (fst (checkin (exampleEnv (1/2)) 1 ?pending))
      \<and> snd (checkin (exampleEnv (1/2)) 1 ?pending) = ?pending"
    by blast
  from C5_guards[of exampleStore1 1 _ "exampleEnv (1/2)" exampleBooking] f2
  have b: "isl (fst (checkout (exampleEnv (1/2)) 1 exampleStore1))
      \<and> snd (checkout (exampleEnv (1/2)) 1 exampleStore1) = exampleStore1"
    by blast
  from C5_guards[of exampleStore1 _ _ "exampleEnvAt 1894197600000 True" _ exampleCancel
      exampleBooking] f f3
  have c: "isl (fst (cancelBooking (exampleEnvAt 1894197600000 True) exampleCancel exampleStore1))
      \<and> snd (cancelBooking (exampleEnvAt 1894197600000 True) exampleCancel exampleStore1)
           = exampleStore1"
    by blast
  from C5_guards[of exampleStore1 _ _ "exampleEnvAt 1894125600000 False" _ exampleCancel
      _ exampleBooking] f f4
  have d: "fst (cancelBooking (exampleEnvAt 1894125600000 False) exampleCancel exampleStore1)
        = Inl RefundProcessingFailed
      \<and> bookings (snd (cancelBooking (exampleEnvAt 1894125600000 False) exampleCancel
            exampleStore1)) = bookings exampleStore1"
    by blast
  from a b c d show ?thesis by blast
qed

text \<open>
  C10. A successful cancellation sets \<open>paymentStatus\<close> to Refunded when the refund amount
  is positive and to Paid when it is zero; and a Confirmed booking that was never paid
  (payment status Pending, no payment-intent reference) is cancelled without any request
  to the payment processor, whatever that processor would answer, and still ends up
  Refunded.
\<close>

theorem C10_payment_status:
  "(cancelBooking env req st = (Inr b', st') \<longrightarrow>
      (refundAmount b' > 0 \<longrightarrow> paymentStatus b' = Refunded) \<and>
      (refundAmount b' = 0 \<longrightarrow> paymentStatus b' = Paid) \<and>
      b' \<in> set (bookings st'))
   \<and> (c_confirmationCode req \<noteq> [] \<and> (\<forall>r. c_reason req = Some r \<longrightarrow> length r \<le> 500) \<and>
       find (\<lambda>b. bookingNumber b = c_bookingNumber req
                 \<and> confirmationCode b = c_confirmationCode req) (bookings st) = Some booking \<and>
       canBeCancelled (clock env 0) booking \<and>
       paymentStatus booking = PaymentPending \<and> stripePaymentIntentId booking = None \<and>
       totalAmount booking > 0 \<longrightarrow>
      (\<exists>doc st2. cancelBooking env req st = (Inr doc, st2) \<and> refundAmount doc > 0 \<and>
         paymentStatus doc = Refunded \<and> stripeRequests st2 = stripeRequests st))"
proof (intro conjI impI)
  assume run: "cancelBooking env req st = (Inr b', st')"
  from cancelBooking_Inr[OF run] obtain bk where
    b': "b' = cancelledDoc env req bk" by blast
  show "refundAmount b' > 0 \<Longrightarrow> paymentStatus b' = Refunded"
    by (simp add: b' cancelledDoc_def Let_def)
  show "refundAmount b' = 0 \<Longrightarrow> paymentStatus b' = Paid"
    by (simp add: b' cancelledDoc_def Let_def)
  show "b' \<in> set (bookings st')"
    by (rule cancelBooking_Inr_stored[OF run])
next
  assume h: "c_confirmationCode req \<noteq> [] \<and> (\<forall>r. c_reason req = Some r \<longrightarrow> length r \<le> 500) \<and>
       find (\<lambda>b. bookingNumber b = c_bookingNumber req
                 \<and> confirmationCode b = c_confirmationCode req) (bookings st) = Some booking \<and>
       canBeCancelled (clock env 0) booking \<and>
       paymentStatus booking = PaymentPending \<and> stripePaymentIntentId booking = None \<and>
       totalAmount booking > 0"
  then have v: "\<not> (c_confirmationCode req = []
         \<or> (case c_reason req of None \<Rightarrow> False | Some r \<Rightarrow> length r > 500))"
    by (auto split: option.splits)
  from h have pos: "totalAmount booking - calculateCancellationFee (clock env 1) booking > 0"
    by (simp add: calculateCancellationFee_def)
  from h v have r: "cancelBooking env req st =
      (Inr (cancelledDoc env req booking), saveBooking (cancelledDoc env req booking) st)"
    unfolding cancelBooking_def cancelledDoc_def Let_def
    by (simp add: truthy_def del: One_nat_def)
  have "refundAmount (cancelledDoc env req booking) > 0
      \<and> paymentStatus (cancelledDoc env req booking) = Refunded"
    using pos by (simp add: cancelledDoc_def Let_def)
  with r show "\<exists>doc st2. cancelBooking env req st = (Inr doc, st2) \<and> refundAmount doc > 0 \<and>
         paymentStatus doc = Refunded \<and> stripeRequests st2 = stripeRequests st"
    by simp
qed

theorem C10_payment_status_witness:
  "cancelBooking (exampleEnvAt 1894125600000 False) exampleCancel unpaidStore
     = (Inr (unpaidBooking\<lparr>status := Cancelled, cancellationDate := Some 1894125600000,
               cancellationFee := 84, refundAmount := 252, paymentStatus := Refunded\<rparr>),
        unpaidStore\<lparr>bookings := [unpaidBooking\<lparr>status := Cancelled,
               cancellationDate := Some 1894125600000,
               cancellationFee := 84, refundAmount := 252, paymentStatus := Refunded\<rparr>]\<rparr>)
   \<and> paymentStatus unpaidBooking = PaymentPending
   \<and> stripePaymentIntentId unpaidBooking = None
   \<and> (\<exists>doc st2. cancelBooking (exampleEnvAt 1894125600000 False) exampleCancel unpaidStore
                   = (Inr doc, st2) \<and> refundAmount doc > 0 \<and> paymentStatus doc = Refunded
                 \<and> stripeRequests st2 = stripeRequests unpaidStore)"
proof -
  have h: "c_confirmationCode exampleCancel \<noteq> []
      \<and> (\<forall>r. c_reason exampleCancel = Some r \<longrightarrow> length r \<le> 500)
      \<and> find (\<lambda>b. bookingNumber b = c_bookingNumber exampleCancel
                 \<and> confirmationCode b = c_confirmationCode exampleCancel)
           (bookings unpaidStore) = Some unpaidBooking
      \<and> canBeCancelled (clock (exampleEnvAt 1894125600000 False) 0) unpaidBooking
      \<and> paymentStatus unpaidBooking = PaymentPending
      \<and> stripePaymentIntentId unpaidBooking = None
      \<and> totalAmount unpaidBooking > 0"
    by (simp add: canBeCancelled_def hoursUntilCheckIn_def exampleEnvAt_def exampleCancel_def
          unpaidStore_def unpaidBooking_def exampleBooking_def)
  from C10_payment_status[of "exampleEnvAt 1894125600000 False" exampleCancel unpaidStore
      _ _ unpaidBooking] h
  have "\<exists>doc st2. cancelBooking (exampleEnvAt 1894125600000 False) exampleCancel unpaidStore
                   = (Inr doc, st2) \<and> refundAmount doc > 0 \<and> paymentStatus doc = Refunded
                 \<and> stripeRequests st2 = stripeRequests unpaidStore"
    by blast
  with h example_cancel_unpaid show ?thesis by blast
qed



section \<open>Revenue report and lookup\<close>


lemma revenueMatch_unfold:
  "revenueMatch s e b \<longleftrightarrow>
     (status b = Confirmed \<or> status b = CheckedIn \<or> status b = CheckedOut) \<and>
     s \<le> checkInDate b \<and> checkInDate b \<le> e"
  by (auto simp: revenueMatch_def)

lemma period_revenueGroup:
  "map period (revenueGroup bs) = remdups (map (\<lambda>b. dateParts (checkInDate b)) bs)"
  by (simp add: revenueGroup_def Let_def comp_def)

lemma revenueGroup_member:
  assumes "r \<in> set (revenueGroup bs)"
  shows "period r \<in> (\<lambda>b. dateParts (checkInDate b)) ` set bs
     \<and> totalRevenue r = sum_list (map totalAmount
           (filter (\<lambda>b. dateParts (checkInDate b) = period r) bs))
     \<and> bookingsCount r = length (filter (\<lambda>b. dateParts (checkInDate b) = period r) bs)
     \<and> averageRate r = sum_list (map roomRate
           (filter (\<lambda>b. dateParts (checkInDate b) = period r) bs))
         / of_nat (length (filter (\<lambda>b. dateParts (checkInDate b) = period r) bs))"
  using assms by (auto simp: revenueGroup_def Let_def)

lemma distinct_period_sorted:
  "distinct (map period (sort_key period (revenueGroup bs)))"
proof -
  have d: "distinct (map period (revenueGroup bs))"
    by (simp add: period_revenueGroup)
  then have "distinct (revenueGroup bs)" "inj_on period (set (revenueGroup bs))"
    by (simp_all add: distinct_map)
  then show ?thesis by (simp add: distinct_map)
qed

text \<open>
  C9. The report has one record for each calendar day (UTC) on which a booking with status
  Confirmed, Checked In or Checked Out and check-in within \<open>[start, end]\<close> arrives, and
  no other record: the days of the records are pairwise different and in ascending order
  of (year, month, day); each record carries the sum of \<open>totalAmount\<close>, the number and
  the mean \<open>roomRate\<close> of those bookings of its day.  The analytics route, for an
  authorised caller, returns that report, and when no booking falls in the window the
  summary has no record, 0 bookings and an average booking value of 0.
\<close>

theorem C9_revenue_report:
  "(let matched = filter (\<lambda>b. (status b = Confirmed \<or> status b = CheckedIn \<or> status b = CheckedOut)
                             \<and> startD \<le> checkInDate b \<and> checkInDate b \<le> endD) bs;
        report = generateRevenueReport bs startD endD
    in sorted (map period report) \<and> distinct (map period report) \<and>
       set (map period report) = (\<lambda>b. dateParts (checkInDate b)) ` set matched \<and>
       (\<forall>r \<in> set report.
          let day = filter (\<lambda>b. dateParts (checkInDate b) = period r) matched
          in day \<noteq> [] \<and>
             totalRevenue r = sum_list (map totalAmount day) \<and>
             bookingsCount r = length day \<and>
             averageRate r = sum_list (map roomRate day) / of_nat (length day)))
   \<and> (adminAuth env \<longrightarrow>
        (let s = (case qStart of Some d \<Rightarrow> d | None \<Rightarrow> clock env 0 - 30 * 24 * 60 * 60 * 1000);
             e = (case qEnd of Some d \<Rightarrow> d | None \<Rightarrow> clock env 1)
         in \<exists>summary. revenueAnalytics env qStart qEnd st = Inr summary \<and>
              revenueData summary = generateRevenueReport (bookings st) s e \<and>
              ((\<forall>b \<in> set (bookings st).
                   \<not> ((status b = Confirmed \<or> status b = CheckedIn \<or> status b = CheckedOut)
                      \<and> s \<le> checkInDate b \<and> checkInDate b \<le> e)) \<longrightarrow>
               revenueData summary = [] \<and> totalBookings summary = 0 \<and>
               averageBookingValue summary = 0)))"
proof (rule conjI)
  let ?key = "\<lambda>b. dateParts (checkInDate b)"
  let ?m = "filter (revenueMatch startD endD) bs"
  have m: "filter (\<lambda>b. (status b = Confirmed \<or> status b = CheckedIn \<or> status b = CheckedOut)
                             \<and> startD \<le> checkInDate b \<and> checkInDate b \<le> endD) bs = ?m"
    by (rule filter_cong) (simp_all add: revenueMatch_unfold)
  have rep: "generateRevenueReport bs startD endD = sort_key period (revenueGroup ?m)"
    by (simp add: generateRevenueReport_def)
  have a: "sorted (map period (sort_key period (revenueGroup ?m)))"
    by (rule sorted_sort_key)
  have b: "distinct (map period (sort_key period (revenueGroup ?m)))"
    by (rule distinct_period_sorted)
  have "set (map period (sort_key period (revenueGroup ?m))) = set (map period (revenueGroup ?m))"
    by simp
  then have c: "set (map period (sort_key period (revenueGroup ?m))) = ?key ` set ?m"
    unfolding period_revenueGroup by simp
  have d: "\<forall>r \<in> set (sort_key period (revenueGroup ?m)).
          let day = filter (\<lambda>b. ?key b = period r) ?m
          in day \<noteq> [] \<and>
             totalRevenue r = sum_list (map totalAmount day) \<and>
             bookingsCount r = length day \<and>
             averageRate r = sum_list (map roomRate day) / of_nat (length day)"
  proof
    fix r assume "r \<in> set (sort_key period (revenueGroup ?m))"
    then have r: "r \<in> set (revenueGroup ?m)" by simp
    from revenueGroup_member[OF r] have "period r \<in> ?key ` set ?m" by blast
    then have "filter (\<lambda>b. ?key b = period r) ?m \<noteq> []"
      by (auto simp: filter_empty_conv)
    with revenueGroup_member[OF r]
    show "let day = filter (\<lambda>b. ?key b = period r) ?m
          in day \<noteq> [] \<and>
             totalRevenue r = sum_list (map totalAmount day) \<and>
             bookingsCount r = length day \<and>
             averageRate r = sum_list (map roomRate day) / of_nat (length day)"
      unfolding Let_def by blast
  qed
  from a b c d show "let matched = filter (\<lambda>b. (status b = Confirmed \<or> status b = CheckedIn \<or> status b = CheckedOut)
                             \<and> startD \<le> checkInDate b \<and> checkInDate b \<le> endD) bs;
        report = generateRevenueReport bs startD endD
    in sorted (map period report) \<and> distinct (map period report) \<and>
       set (map period report) = (\<lambda>b. dateParts (checkInDate b)) ` set matched \<and>
       (\<forall>r \<in> set report.
          let day = filter (\<lambda>b. dateParts (checkInDate b) = period r) matched
          in day \<noteq> [] \<and>
             totalRevenue r = sum_list (map totalAmount day) \<and>
             bookingsCount r = length day \<and>
             averageRate r = sum_list (map roomRate day) / of_nat (length day))"
    unfolding m rep Let_def by blast
next
  show "adminAuth env \<longrightarrow>
        (let s = (case qStart of Some d \<Rightarrow> d | None \<Rightarrow> clock env 0 - 30 * 24 * 60 * 60 * 1000);
             e = (case qEnd of Some d \<Rightarrow> d | None \<Rightarrow> clock env 1)
         in \<exists>summary. revenueAnalytics env qStart qEnd st = Inr summary \<and>
              revenueData summary = generateRevenueReport (bookings st) s e \<and>
              ((\<forall>b \<in> set (bookings st).
                   \<not> ((status b = Confirmed \<or> status b = CheckedIn \<or> status b = CheckedOut)
                      \<and> s \<le> checkInDate b \<and> checkInDate b \<le> e)) \<longrightarrow>
               revenueData summary = [] \<and> totalBookings summary = 0 \<and>
               averageBookingValue summary = 0))"
  proof
    assume auth: "adminAuth env"
    define s where "s = (case qStart of Some d \<Rightarrow> d | None \<Rightarrow> clock env 0 - 30 * 24 * 60 * 60 * 1000)"
    define e where "e = (case qEnd of Some d \<Rightarrow> d | None \<Rightarrow> clock env 1)"
    have empty: "(\<forall>b \<in> set (bookings st).
                   \<not> ((status b = Confirmed \<or> status b = CheckedIn \<or> status b = CheckedOut)
                      \<and> s \<le> checkInDate b \<and> checkInDate b \<le> e)) \<Longrightarrow>
        generateRevenueReport (bookings st) s e = []"
    proof -
      assume "\<forall>b \<in> set (bookings st).
                   \<not> ((status b = Confirmed \<or> status b = CheckedIn \<or> status b = CheckedOut)
                      \<and> s \<le> checkInDate b \<and> checkInDate b \<le> e)"
      then have "filter (revenueMatch s e) (bookings st) = []"
        unfolding filter_empty_conv by (simp add: revenueMatch_unfold)
      then show ?thesis by (simp add: generateRevenueReport_def revenueGroup_def)
    qed
    from auth have "\<exists>summary. revenueAnalytics env qStart qEnd st = Inr summary \<and>
              revenueData summary = generateRevenueReport (bookings st) s e \<and>
              (generateRevenueReport (bookings st) s e = [] \<longrightarrow>
                 totalBookings summary = 0 \<and> averageBookingValue summary = 0)"
      unfolding revenueAnalytics_def Let_def s_def e_def by simp
    with empty show "let s = (case qStart of Some d \<Rightarrow> d | None \<Rightarrow> clock env 0 - 30 * 24 * 60 * 60 * 1000);
             e = (case qEnd of Some d \<Rightarrow> d | None \<Rightarrow> clock env 1)
         in \<exists>summary. revenueAnalytics env qStart qEnd st = Inr summary \<and>
              revenueData summary = generateRevenueReport (bookings st) s e \<and>
              ((\<forall>b \<in> set (bookings st).
                   \<not> ((status b = Confirmed \<or> status b = CheckedIn \<or> status b = CheckedOut)
                      \<and> s \<le> checkInDate b \<and> checkInDate b \<le> e)) \<longrightarrow>
               revenueData summary = [] \<and> totalBookings summary = 0 \<and>
               averageBookingValue summary = 0)"
      unfolding Let_def s_def[symmetric] e_def[symmetric] by metis
  qed
qed


lemma example_dateParts:
  "dateParts 1894233600000 = (2030, 1, 10)"
  "dateParts 1894276800000 = (2030, 1, 10)"
  "dateParts 1894492800000 = (2030, 1, 13)"
  by code_simp+

lemma example_report:
  "generateRevenueReport reportBookings 1894060800000 1894665600000 =
     [\<lparr>period = (2030, 1, 10), totalRevenue = 784, bookingsCount = 2, averageRate = 150\<rparr>,
      \<lparr>period = (2030, 1, 13), totalRevenue = 224, bookingsCount = 1, averageRate = 100\<rparr>]"
  by (simp add: generateRevenueReport_def revenueGroup_def revenueMatch_def example_dateParts
        Let_def reportBookings_def exampleBooking_def)

theorem C9_revenue_report_witness:
  "generateRevenueReport reportBookings 1894060800000 1894665600000 =
     [\<lparr>period = (2030, 1, 10), totalRevenue = 784, bookingsCount = 2, averageRate = 150\<rparr>,
      \<lparr>period = (2030, 1, 13), totalRevenue = 224, bookingsCount = 1, averageRate = 100\<rparr>]
   \<and> sorted [(2030, 1, 10), (2030, 1, 13) :: int \<times> int \<times> int]
   \<and> (\<exists>summary. revenueAnalytics (exampleEnv (1/2)) (Some 1894579200000) (Some 1894665600000)
                     (exampleStore\<lparr>bookings := reportBookings\<rparr>) = Inr summary
          \<and> revenueData summary = [] \<and> averageBookingValue summary = 0)"
proof -
  note t = C9_revenue_report[of 1894060800000 1894665600000 reportBookings "exampleEnv (1/2)"
      "Some 1894579200000" "Some 1894665600000" "exampleStore\<lparr>bookings := reportBookings\<rparr>"]
  from t have "sorted (map period
      (generateRevenueReport reportBookings 1894060800000 1894665600000))"
    unfolding Let_def by blast
  then have a: "sorted [(2030, 1, 10), (2030, 1, 13) :: int \<times> int \<times> int]"
    unfolding example_report by simp
  have auth: "adminAuth (exampleEnv (1/2))" by (simp add: exampleEnv_def)
  have none: "\<forall>b \<in> set (bookings (exampleStore\<lparr>bookings := reportBookings\<rparr>)).
      \<not> ((status b = Confirmed \<or> status b = CheckedIn \<or> status b = CheckedOut)
         \<and> 1894579200000 \<le> checkInDate b \<and> checkInDate b \<le> 1894665600000)"
    by (simp add: reportBookings_def exampleBooking_def)
  from t auth none have "\<exists>summary.
      revenueAnalytics (exampleEnv (1/2)) (Some 1894579200000) (Some 1894665600000)
                     (exampleStore\<lparr>bookings := reportBookings\<rparr>) = Inr summary
          \<and> revenueData summary = [] \<and> averageBookingValue summary = 0"
    unfolding Let_def by auto
  with a example_report show ?thesis by blast
qed

lemma getBooking_with_code:
  assumes "truthy (g_confirmationCode req)" "getBooking req st = Inr b"
  shows "b \<in> set (bookings st) \<and> bookingNumber b = g_bookingNumber req
     \<and> Some (confirmationCode b) = g_confirmationCode req"
proof -
  from assms have "find (\<lambda>b. bookingNumber b = g_bookingNumber req
                         \<and> Some (confirmationCode b) = g_confirmationCode req) (bookings st) = Some b"
    by (simp add: getBooking_def split: option.splits)
  from find_Some_holds[OF this] show ?thesis by simp
qed

text \<open>
  C7. The lookup route at a request without confirmation code (or with an empty one) from
  a caller who is not authenticated: the handler never looks at the caller and returns the
  booking.  With a code, only a booking that matches both the number and the code is
  returned (lemma \<open>getBooking_with_code\<close>, and the third line here).
\<close>

theorem C7_lookup_without_code:
  "getBooking \<lparr>g_bookingNumber = ''OVH2029550000'', g_confirmationCode = None,
               g_authenticated = False\<rparr> exampleStore1 = Inr exampleBooking
   \<and> getBooking \<lparr>g_bookingNumber = ''OVH2029550000'', g_confirmationCode = Some [],
               g_authenticated = False\<rparr> exampleStore1 = Inr exampleBooking
   \<and> getBooking \<lparr>g_bookingNumber = ''OVH2029550000'', g_confirmationCode = Some ''WRONG000'',
               g_authenticated = False\<rparr> exampleStore1 = Inl BookingNotFound"
  by (simp add: getBooking_def truthy_def exampleStore1_def exampleBooking_def)


end
